theory Spec2Isabelle
  imports Complex_Main "HOL-Library.Word"
begin

section \<open>JavaScript values\<close>

text \<open>
  A JavaScript string is a sequence of UTF-16 code units, so \<open>split\<close>, \<open>trim\<close>,
  \<open>startsWith\<close> and \<open>substring\<close> all count code units. String literals of the source are
  ASCII; \<open>js\<close> turns an Isabelle literal into the code units it denotes.
\<close>

type_synonym jschar = "16 word"
type_synonym jsstring = "jschar list"

definition js :: "string \<Rightarrow> jsstring" where
  "js s = map (\<lambda>c. of_nat (of_char c)) s"

text \<open>
  \<open>String.prototype.trim\<close> strips WhiteSpace and LineTerminator code points from both
  ends (ECMA-262: TAB, VT, FF, SP, NBSP, ZWNBSP, the category Zs, LF, CR, LS, PS).
\<close>

definition isWhiteSpace :: "jschar \<Rightarrow> bool" where
  "isWhiteSpace c \<longleftrightarrow>
     c \<in> {0x09, 0x0A, 0x0B, 0x0C, 0x0D, 0x20, 0xA0, 0x1680, 0x2028, 0x2029, 0x202F,
          0x205F, 0x3000, 0xFEFF}
     \<or> (0x2000 \<le> c \<and> c \<le> 0x200A)"

definition trim :: "jsstring \<Rightarrow> jsstring" where
  "trim s = rev (dropWhile isWhiteSpace (rev (dropWhile isWhiteSpace s)))"

definition startsWith :: "jsstring \<Rightarrow> jsstring \<Rightarrow> bool" where
  "startsWith s p \<longleftrightarrow> take (length p) s = p"

definition nl :: jschar where
  "nl = 0x0A"

text \<open>
  \<open>text.split('\n')\<close>: the pieces between the separators, always at least one piece
  (the empty string splits into one empty piece).
\<close>

definition consHead :: "'a \<Rightarrow> 'a list list \<Rightarrow> 'a list list" where
  "consHead x pieces = (case pieces of [] \<Rightarrow> [[x]] | p # ps \<Rightarrow> (x # p) # ps)"

fun splitOn :: "'a \<Rightarrow> 'a list \<Rightarrow> 'a list list" where
  "splitOn sep [] = [[]]"
| "splitOn sep (x # xs) =
     (if x = sep then [] # splitOn sep xs else consHead x (splitOn sep xs))"

text \<open>
  The values the program handles: what \<open>JSON.parse\<close> returns, \<open>undefined\<close>, and the
  \<open>Date\<close> of a timestamp. Numbers are only stored and tested for truthiness, never
  computed with. An object is the list of its own properties; a property is looked up
  with \<open>map_of\<close>.
\<close>

datatype jsval =
    JUndefined
  | JNull
  | JBool bool
  | JNum real
  | JStr jsstring
  | JArr "jsval list"
  | JObj "(jsstring \<times> jsval) list"
  | JDate real

fun truthy :: "jsval \<Rightarrow> bool" where
  "truthy JUndefined = False"
| "truthy JNull = False"
| "truthy (JBool b) = b"
| "truthy (JNum n) = (n \<noteq> 0)"
| "truthy (JStr s) = (s \<noteq> [])"
| "truthy (JArr xs) = True"
| "truthy (JObj kvs) = True"
| "truthy (JDate d) = True"

text \<open>\<open>a || b\<close>\<close>

definition orElse :: "jsval \<Rightarrow> jsval \<Rightarrow> jsval" where
  "orElse a b = (if truthy a then a else b)"

text \<open>
  What the program throws or rejects with. \<open>ErrorOf v\<close> is \<open>new Error(v)\<close>;
  \<open>RequestFailed status\<close> and \<open>ServerError status\<close> are the two errors whose message is
  built from the response status; \<open>StreamHttpError status body\<close> is the error the
  non-success branch of the stream request throws for that status and response text;
  \<open>HostError\<close> is an error raised by the platform (a rejected fetch, read or body parse).
\<close>

datatype js_error =
    ErrorOf jsval
  | RequestFailed nat
  | ServerError nat
  | StreamHttpError nat jsstring
  | TypeError
  | SyntaxError
  | HostError jsstring

text \<open>
  \<open>data.k\<close> for the property names the program reads (\<open>message\<close>, \<open>outline\<close>, \<open>model\<close>,
  \<open>answer\<close>, \<open>sessionId\<close>, ...): reading a property of \<open>null\<close> or \<open>undefined\<close> throws a
  TypeError; an object yields its own property or \<open>undefined\<close>; none of these names is a
  built-in property of a string, number, boolean or array, which yield \<open>undefined\<close>.
\<close>

fun getProp :: "jsval \<Rightarrow> jsstring \<Rightarrow> js_error + jsval" where
  "getProp JUndefined k = Inl TypeError"
| "getProp JNull k = Inl TypeError"
| "getProp (JObj kvs) k = Inr (case map_of kvs k of None \<Rightarrow> JUndefined | Some v \<Rightarrow> v)"
| "getProp v k = Inr JUndefined"

section \<open>The conversation store (ChatbotContext)\<close>

text \<open>
  A \<open>Message\<close> is an object: a finite map from its property names to values. The object
  spread \<open>{ ...a, ...b }\<close> is \<open>a ++ b\<close>; an update object that names a property with the
  value \<open>undefined\<close> maps it to \<open>JUndefined\<close>.
\<close>

datatype field =
    Role | Content | Timestamp | Provider | Model | Sources | Confidence | Mode | Route
  | Outline | IsStreaming | StreamingStatus | SessionId | CanGoDeeper | DeeperSuggestion
  | DeeperAnalysis | IsLoadingDeeper

type_synonym message = "field \<rightharpoonup> jsval"

text \<open>\<open>m.f\<close>\<close>

definition readField :: "message \<Rightarrow> field \<Rightarrow> jsval" where
  "readField m f = (case m f of None \<Rightarrow> JUndefined | Some v \<Rightarrow> v)"

datatype endpoint = ChatEndpoint | StreamEndpoint | DeeperEndpoint

datatype effect =
    Fetch endpoint jsval
  | ConsoleError jsstring js_error
  | AuthRequired
  | OnError js_error
  | UnhandledRejection js_error

text \<open>
  The provider's state (one \<open>useState\<close> cell per field) and, in \<open>effects\<close>, what the hook
  did to the outside world, in order: requests sent, console output, host callbacks
  invoked. The \<open>failure\<close> cell is the provider's \<open>error\<close> state: \<open>None\<close> is \<open>null\<close>, and
  \<open>Some e\<close> is the string \<open>e.message || 'Failed to send message'\<close>.
\<close>

record world =
  messages :: "message list"
  researchMessages :: "message list"
  remainingQuota :: jsval
  isLoading :: bool
  failure :: "js_error option"
  effects :: "effect list"

text \<open>The updater of \<open>updateMessage\<close>: \<open>prev => { ... }\<close> (part_000, lines 130-136).\<close>

definition patchAt :: "int \<Rightarrow> message \<Rightarrow> message list \<Rightarrow> message list" where
  "patchAt index updates prev =
     (if 0 \<le> index \<and> nat index < length prev
      then prev[nat index := (prev ! nat index) ++ updates]
      else prev)"

definition addMessage :: "message \<Rightarrow> bool \<Rightarrow> 'a world_scheme \<Rightarrow> 'a world_scheme" where
  "addMessage message isResearch w =
     (if isResearch then w\<lparr>researchMessages := researchMessages w @ [message]\<rparr>
      else w\<lparr>messages := messages w @ [message]\<rparr>)"

definition updateMessage ::
  "int \<Rightarrow> message \<Rightarrow> bool \<Rightarrow> 'a world_scheme \<Rightarrow> 'a world_scheme" where
  "updateMessage index updates isResearch w =
     (if isResearch then w\<lparr>researchMessages := patchAt index updates (researchMessages w)\<rparr>
      else w\<lparr>messages := patchAt index updates (messages w)\<rparr>)"

definition setRemainingQuota :: "jsval \<Rightarrow> 'a world_scheme \<Rightarrow> 'a world_scheme" where
  "setRemainingQuota quota w = w\<lparr>remainingQuota := quota\<rparr>"

definition consoleError :: "string \<Rightarrow> js_error \<Rightarrow> 'a world_scheme \<Rightarrow> 'a world_scheme" where
  "consoleError label e w = w\<lparr>effects := effects w @ [ConsoleError (js label) e]\<rparr>"

section \<open>The platform\<close>

text \<open>
  \<open>JSON.parse\<close> and \<open>TextDecoder\<close> belong to the platform and are parameters of the
  model. \<open>JSON_parse s\<close> is \<open>None\<close> where \<open>JSON.parse\<close> throws its SyntaxError. The decoder
  is the one of \<open>new TextDecoder()\<close> used with \<open>{ stream: true }\<close>: it consumes its input
  one byte at a time and keeps the bytes of an unfinished sequence in its state.
\<close>

record 'd platform =
  JSON_parse :: "jsstring \<Rightarrow> jsval option"
  decoder_init :: 'd
  decoder_step :: "'d \<Rightarrow> 8 word \<Rightarrow> 'd \<times> jsstring"

fun decode :: "('d \<Rightarrow> 8 word \<Rightarrow> 'd \<times> jsstring) \<Rightarrow> 'd \<Rightarrow> 8 word list \<Rightarrow> 'd \<times> jsstring" where
  "decode step d [] = (d, [])"
| "decode step d (b # bs) =
     (case step d b of (d1, out1) \<Rightarrow>
        (case decode step d1 bs of (d2, out2) \<Rightarrow> (d2, out1 @ out2)))"

text \<open>
  One \<open>reader.read()\<close>: a chunk of bytes, the end of the body, or a rejection. A reader is
  the list of what its reads return; after the last entry a read never settles.
\<close>

datatype read = Chunk "8 word list" | Done | Throws js_error

section \<open>A research-mode turn (useChatApi, sendStreamingMessage)\<close>

text \<open>
  The promise of the turn: \<open>resolve\<close> and \<open>reject\<close> settle it once; later calls do
  nothing.
\<close>

datatype outcome = Pending | Resolved | Rejected js_error

record session = world +
  eventBuffer :: jsstring
  promise :: outcome

record turn = session +
  receivedDone :: bool

definition resolve :: "'a session_scheme \<Rightarrow> 'a session_scheme" where
  "resolve s = (if promise s = Pending then s\<lparr>promise := Resolved\<rparr> else s)"

definition reject :: "js_error \<Rightarrow> 'a session_scheme \<Rightarrow> 'a session_scheme" where
  "reject e s = (if promise s = Pending then s\<lparr>promise := Rejected e\<rparr> else s)"

text \<open>
  Reading \<open>data.k\<close> inside the \<open>try\<close> of \<open>processLine\<close>: a TypeError goes to the \<open>catch\<close>,
  which logs it in the state reached so far.
\<close>

definition reading ::
  "jsval \<Rightarrow> string \<Rightarrow> 'a world_scheme \<Rightarrow> (jsval \<Rightarrow> 'a world_scheme) \<Rightarrow> 'a world_scheme" where
  "reading data k w cont =
     (case getProp data (js k) of
        Inl e \<Rightarrow> consoleError ''Failed to parse SSE data:'' e w
      | Inr v \<Rightarrow> cont v)"

text \<open>The \<open>switch (eventType)\<close> of \<open>processLine\<close> (useChatApi.ts, lines 180-224).\<close>

definition dispatch :: "int \<Rightarrow> jsstring \<Rightarrow> jsval \<Rightarrow> 'a turn_scheme \<Rightarrow> 'a turn_scheme" where
  "dispatch messageIndex eventType data t =
     (if eventType = js ''outline'' then
        reading data ''outline'' t (\<lambda>outline.
        reading data ''model'' t (\<lambda>model.
          updateMessage messageIndex
            [Outline \<mapsto> orElse outline (JArr []),
             Model \<mapsto> orElse model (JStr []),
             StreamingStatus \<mapsto> JStr (js ''Preparing detailed response...'')] True t))
      else if eventType = js ''status'' then
        reading data ''message'' t (\<lambda>message.
          updateMessage messageIndex
            [StreamingStatus \<mapsto> orElse message (JStr (js ''Generating...''))] True t)
      else if eventType = js ''answer'' then
        reading data ''answer'' t (\<lambda>answer.
        reading data ''model'' t (\<lambda>model.
          updateMessage messageIndex
            [Content \<mapsto> orElse answer (JStr []),
             Model \<mapsto> model,
             IsStreaming \<mapsto> JBool False,
             StreamingStatus \<mapsto> JUndefined] True t))
      else if eventType = js ''done'' then
        (let t1 = t\<lparr>receivedDone := True\<rparr> in
         reading data ''sessionId'' t1 (\<lambda>sessionId.
         reading data ''canGoDeeper'' t1 (\<lambda>canGoDeeper.
         reading data ''deeperSuggestion'' t1 (\<lambda>deeperSuggestion.
           (let t2 = updateMessage messageIndex
                       [IsStreaming \<mapsto> JBool False,
                        StreamingStatus \<mapsto> JUndefined,
                        Confidence \<mapsto> JNum 85,
                        Route \<mapsto> JStr (js ''research''),
                        SessionId \<mapsto> sessionId,
                        CanGoDeeper \<mapsto> canGoDeeper,
                        DeeperSuggestion \<mapsto> deeperSuggestion] True t1 in
            reading data ''remainingQuota'' t2 (\<lambda>quota.
              resolve (if quota \<noteq> JUndefined then setRemainingQuota quota t2 else t2)))))))
      else if eventType = js ''error'' then
        reading data ''message'' t (\<lambda>message.
          reject (ErrorOf (orElse message (JStr (js ''Stream error'')))) t)
      else t)"

text \<open>\<open>processLine\<close> (useChatApi.ts, lines 172-230).\<close>

definition processLine :: "'d platform \<Rightarrow> int \<Rightarrow> jsstring \<Rightarrow> 'a turn_scheme \<Rightarrow> 'a turn_scheme" where
  "processLine pf messageIndex line t =
     (if startsWith line (js ''event: '') then t\<lparr>eventBuffer := trim (drop 7 line)\<rparr>
      else if startsWith line (js ''data: '') then
        (let eventType = eventBuffer t;
             t' = (case JSON_parse pf (drop 6 line) of
                     None \<Rightarrow> consoleError ''Failed to parse SSE data:'' SyntaxError t
                   | Some data \<Rightarrow> dispatch messageIndex eventType data t)
         in t'\<lparr>eventBuffer := []\<rparr>)
      else t)"

text \<open>\<open>for (const line of lines) { if (line.trim()) processLine(line.trim()); }\<close>\<close>

fun forLines :: "'d platform \<Rightarrow> int \<Rightarrow> jsstring list \<Rightarrow> 'a turn_scheme \<Rightarrow> 'a turn_scheme" where
  "forLines pf messageIndex [] t = t"
| "forLines pf messageIndex (line # lines) t =
     forLines pf messageIndex lines
       (if trim line \<noteq> [] then processLine pf messageIndex (trim line) t else t)"

text \<open>
  \<open>readStream\<close> (useChatApi.ts, lines 232-257). The loop runs over the reads of the
  reader; its locals are the decoder's state and \<open>partialLine\<close>. When the reads are used
  up the loop is still awaiting the next one.
\<close>

fun readLoop ::
  "'d platform \<Rightarrow> int \<Rightarrow> 'd \<Rightarrow> jsstring \<Rightarrow> read list \<Rightarrow> 'a turn_scheme \<Rightarrow> 'a turn_scheme" where
  "readLoop pf messageIndex d partialLine [] t = t"
| "readLoop pf messageIndex d partialLine (Done # reads) t =
     (if \<not> receivedDone t
      then updateMessage messageIndex [IsStreaming \<mapsto> JBool False] True t
      else t)"
| "readLoop pf messageIndex d partialLine (Throws e # reads) t =
     reject e (updateMessage messageIndex [IsStreaming \<mapsto> JBool False] True t)"
| "readLoop pf messageIndex d partialLine (Chunk v # reads) t =
     (case decode (decoder_step pf) d v of (d', chunk) \<Rightarrow>
        (let text = partialLine @ chunk;
             lines = splitOn nl text;
             partialLine' = (if lines = [] then [] else last lines)
         in readLoop pf messageIndex d' partialLine' reads
              (forLines pf messageIndex (butlast lines) t)))"

definition readStream :: "'d platform \<Rightarrow> int \<Rightarrow> read list \<Rightarrow> 'a turn_scheme \<Rightarrow> 'a turn_scheme" where
  "readStream pf messageIndex reads t =
     readLoop pf messageIndex (decoder_init pf) [] reads t"

text \<open>
  The lines the loop hands to \<open>processLine\<close> while the chunks \<open>vs\<close> arrive, and the
  locals it is left with.
\<close>

definition processed :: "jsstring list \<Rightarrow> jsstring list" where
  "processed lines = map trim (filter (\<lambda>line. trim line \<noteq> []) lines)"

fun framed :: "'d platform \<Rightarrow> 'd \<Rightarrow> jsstring \<Rightarrow> 8 word list list \<Rightarrow> jsstring list" where
  "framed pf d partialLine [] = []"
| "framed pf d partialLine (v # vs) =
     (case decode (decoder_step pf) d v of (d', chunk) \<Rightarrow>
        (let lines = splitOn nl (partialLine @ chunk)
         in processed (butlast lines) @ framed pf d' (last lines) vs))"

fun leftover :: "'d platform \<Rightarrow> 'd \<Rightarrow> jsstring \<Rightarrow> 8 word list list \<Rightarrow> 'd \<times> jsstring" where
  "leftover pf d partialLine [] = (d, partialLine)"
| "leftover pf d partialLine (v # vs) =
     (case decode (decoder_step pf) d v of (d', chunk) \<Rightarrow>
        leftover pf d' (last (splitOn nl (partialLine @ chunk))) vs)"

section \<open>The hook's closure and the network\<close>

text \<open>
  What a callback of \<open>useChatApi\<close> closes over: the values the render destructured
  from the context. \<open>rendered\<close> is \<open>researchMessages\<close> as of that render; the store may
  have moved on since (the setters act on the store, the closure keeps its copy).
  \<open>config.onAuthRequired\<close> and \<open>config.onError\<close> are host callbacks: the closure records
  whether each is defined, and calling one is logged in \<open>effects\<close>. Request headers and
  the client id kept in localStorage are not modelled.
\<close>

record hook =
  auth_isAuthenticated :: bool
  auth_token :: jsval
  isResearchMode :: bool
  articleContext :: jsval
  rendered :: "message list"
  onAuthRequired :: bool
  onError :: bool

text \<open>
  A response: \<open>response.ok\<close>, \<open>response.status\<close>, what \<open>response.text()\<close> and
  \<open>response.json()\<close> settle with, and the reads of \<open>response.body?.getReader()\<close>
  (\<open>None\<close> when there is no body). The environment of one call: the two clock readings
  (\<open>new Date()\<close> for the user's message and for the reply) and how its one \<open>fetch\<close>
  settles (\<open>Inl\<close>: it rejects).
\<close>

record response =
  resp_ok :: bool
  resp_status :: nat
  resp_text :: jsstring
  resp_json :: "js_error + jsval"
  resp_body :: "read list option"

record env =
  sentAt :: real
  repliedAt :: real
  fetched :: "js_error + response"

definition nullish :: "jsval \<Rightarrow> bool" where
  "nullish v \<longleftrightarrow> v = JUndefined \<or> v = JNull"

text \<open>\<open>v.k\<close> where \<open>v\<close> is known not to be nullish, and \<open>v?.k\<close>.\<close>

definition dot :: "jsval \<Rightarrow> string \<Rightarrow> jsval" where
  "dot v k = (case getProp v (js k) of Inl e \<Rightarrow> JUndefined | Inr x \<Rightarrow> x)"

definition optDot :: "jsval \<Rightarrow> string \<Rightarrow> jsval" where
  "optDot v k = (if nullish v then JUndefined else dot v k)"

definition request :: "endpoint \<Rightarrow> jsval \<Rightarrow> 'a world_scheme \<Rightarrow> 'a world_scheme" where
  "request e b w = w\<lparr>effects := effects w @ [Fetch e b]\<rparr>"

section \<open>sendStandardMessage (useChatApi.ts, lines 40-87)\<close>

text \<open>The result is what the async function throws, if anything, and the world it leaves.\<close>

definition sendStandardMessage ::
  "hook \<Rightarrow> env \<Rightarrow> jsstring \<Rightarrow> 'a world_scheme \<Rightarrow> js_error option \<times> 'a world_scheme" where
  "sendStandardMessage h ev question w =
     (let w1 = request ChatEndpoint
                 (JObj [(js ''question'', JStr question), (js ''topK'', JNum 5),
                        (js ''threshold'', JNum (1 / 2)), (js ''temperature'', JNum (3 / 10)),
                        (js ''maxTokens'', JNum 500)]) w
      in case fetched ev of
           Inl e \<Rightarrow> (Some e, w1)
         | Inr r \<Rightarrow>
             if \<not> resp_ok r then
               (let errorData = (case resp_json r of Inl e \<Rightarrow> JObj [] | Inr v \<Rightarrow> v)
                in case getProp errorData (js ''error'') of
                     Inl e \<Rightarrow> (Some e, w1)
                   | Inr err \<Rightarrow>
                       (let m = optDot err ''message''
                        in (Some (if truthy m then ErrorOf m else RequestFailed (resp_status r)),
                            w1)))
             else
               (case resp_json r of
                  Inl e \<Rightarrow> (Some e, w1)
                | Inr data \<Rightarrow>
                    if nullish data \<or> nullish (dot data ''data'') then (Some TypeError, w1)
                    else
                      (let assistantMessage =
                             [Role \<mapsto> JStr (js ''assistant''),
                              Content \<mapsto> dot (dot data ''data'') ''answer'',
                              Provider \<mapsto> dot (dot data ''data'') ''provider'',
                              Model \<mapsto> optDot (optDot (dot data ''meta'') ''routing'') ''model'',
                              Timestamp \<mapsto> JDate (repliedAt ev),
                              Sources \<mapsto> dot (dot data ''data'') ''sources'',
                              Confidence \<mapsto> dot (dot data ''data'') ''confidence'',
                              Mode \<mapsto> JStr (js ''regular''),
                              Route \<mapsto> optDot (optDot (dot data ''meta'') ''routing'') ''route'',
                              Outline \<mapsto>
                                optDot (dot (dot data ''data'') ''hybridSynthesis'') ''outline''];
                           w2 = addMessage assistantMessage False w1;
                           quota = optDot (dot data ''meta'') ''remainingQuota''
                       in (None, if quota \<noteq> JUndefined then setRemainingQuota quota w2 else w2))))"

section \<open>sendStreamingMessage (useChatApi.ts, lines 92-263)\<close>

definition startTurn :: "world \<Rightarrow> turn" where
  "startTurn w =
     \<lparr>messages = messages w, researchMessages = researchMessages w,
      remainingQuota = remainingQuota w, isLoading = isLoading w, failure = failure w,
      effects = effects w, eventBuffer = [], promise = Pending, receivedDone = False\<rparr>"

text \<open>
  \<open>researchMessages.filter(m => m.role === 'assistant' && m.sessionId)
  .map(m => m.sessionId).pop()\<close>
\<close>

definition existingSessionId :: "message list \<Rightarrow> jsval" where
  "existingSessionId ms =
     (case rev (filter (\<lambda>m. readField m Role = JStr (js ''assistant'')
                              \<and> truthy (readField m SessionId)) ms) of
        [] \<Rightarrow> JUndefined
      | m # earlier \<Rightarrow> readField m SessionId)"

definition placeholderMessage :: "env \<Rightarrow> bool \<Rightarrow> message" where
  "placeholderMessage ev isFollowUp =
     [Role \<mapsto> JStr (js ''assistant''),
      Content \<mapsto> JStr [],
      Timestamp \<mapsto> JDate (repliedAt ev),
      Mode \<mapsto> JStr (js ''research''),
      IsStreaming \<mapsto> JBool True,
      StreamingStatus \<mapsto>
        JStr (if isFollowUp then js ''Generating response...'' else js ''Analyzing article...'')]"

definition requestBody :: "hook \<Rightarrow> jsstring \<Rightarrow> jsval" where
  "requestBody h question =
     (let sid = existingSessionId (rendered h);
          ac = articleContext h
      in JObj ([(js ''question'', JStr question), (js ''sessionId'', sid)] @
               (if \<not> truthy sid
                then [(js ''articleContext'',
                       JObj [(js ''slug'', dot ac ''slug''), (js ''title'', dot ac ''title''),
                             (js ''content'', dot ac ''content''),
                             (js ''abstractOneParagraph'', dot ac ''abstractOneParagraph''),
                             (js ''researchArea'', dot ac ''researchArea''),
                             (js ''tags'', dot ac ''tags'')])]
                else [])))"

text \<open>
  The turn as the returned promise sees it. \<open>messageIndex\<close> is the length of the
  closure's \<open>researchMessages\<close>, read after the placeholder was appended to the store.
\<close>

definition sendStreamingMessage :: "'d platform \<Rightarrow> hook \<Rightarrow> env \<Rightarrow> jsstring \<Rightarrow> world \<Rightarrow> turn" where
  "sendStreamingMessage pf h ev question w =
     (if \<not> truthy (articleContext h)
      then (startTurn w)
             \<lparr>promise := Rejected (ErrorOf (JStr (js ''Article context required for Research Mode'')))\<rparr>
      else
        (let isFollowUp = truthy (existingSessionId (rendered h));
             t1 = addMessage (placeholderMessage ev isFollowUp) True (startTurn w);
             messageIndex = int (length (rendered h));
             t2 = request StreamEndpoint (requestBody h question) t1
         in case fetched ev of
              Inl e \<Rightarrow> reject e t2
            | Inr r \<Rightarrow>
                if \<not> resp_ok r then reject (StreamHttpError (resp_status r) (resp_text r)) t2
                else
                  (case resp_body r of
                     None \<Rightarrow> reject (ErrorOf (JStr (js ''Stream not available''))) t2
                   | Some reads \<Rightarrow> readStream pf messageIndex reads t2)))"

section \<open>requestDeeperAnalysis (useChatApi.ts, lines 268-358)\<close>

text \<open>Its own \<open>processLine\<close> (lines 298-329).\<close>

definition dispatchDeeper ::
  "int \<Rightarrow> jsstring \<Rightarrow> jsval \<Rightarrow> 'a session_scheme \<Rightarrow> 'a session_scheme" where
  "dispatchDeeper messageIndex eventType data s =
     (if eventType = js ''analysis'' then
        reading data ''analysis'' s (\<lambda>analysis.
          updateMessage messageIndex
            [DeeperAnalysis \<mapsto> orElse analysis (JStr []),
             IsLoadingDeeper \<mapsto> JBool False] True s)
      else if eventType = js ''done'' then
        (let s1 = updateMessage messageIndex [IsLoadingDeeper \<mapsto> JBool False] True s in
         reading data ''remainingQuota'' s1 (\<lambda>quota.
           resolve (if quota \<noteq> JUndefined then setRemainingQuota quota s1 else s1)))
      else if eventType = js ''error'' then
        (let s1 = updateMessage messageIndex
                    [IsLoadingDeeper \<mapsto> JBool False, CanGoDeeper \<mapsto> JBool True] True s in
         reading data ''message'' s1 (\<lambda>message. reject (ErrorOf message) s1))
      else s)"

definition processLineDeeper ::
  "'d platform \<Rightarrow> int \<Rightarrow> jsstring \<Rightarrow> 'a session_scheme \<Rightarrow> 'a session_scheme" where
  "processLineDeeper pf messageIndex line s =
     (if startsWith line (js ''event: '') then s\<lparr>eventBuffer := trim (drop 7 line)\<rparr>
      else if startsWith line (js ''data: '') then
        (let eventType = eventBuffer s;
             s' = (case JSON_parse pf (drop 6 line) of
                     None \<Rightarrow> consoleError ''Failed to parse SSE data:'' SyntaxError s
                   | Some data \<Rightarrow> dispatchDeeper messageIndex eventType data s)
         in s'\<lparr>eventBuffer := []\<rparr>)
      else s)"

fun forLinesDeeper ::
  "'d platform \<Rightarrow> int \<Rightarrow> jsstring list \<Rightarrow> 'a session_scheme \<Rightarrow> 'a session_scheme" where
  "forLinesDeeper pf messageIndex [] s = s"
| "forLinesDeeper pf messageIndex (line # lines) s =
     forLinesDeeper pf messageIndex lines
       (if trim line \<noteq> [] then processLineDeeper pf messageIndex (trim line) s else s)"

text \<open>
  Its own \<open>readStream\<close> (lines 331-346): no \<open>try\<close>, and the call \<open>readStream()\<close> is not
  awaited, so a read that rejects ends the loop as an unhandled rejection.
\<close>

fun readLoopDeeper ::
  "'d platform \<Rightarrow> int \<Rightarrow> 'd \<Rightarrow> jsstring \<Rightarrow> read list \<Rightarrow> 'a session_scheme \<Rightarrow> 'a session_scheme" where
  "readLoopDeeper pf messageIndex d partialLine [] s = s"
| "readLoopDeeper pf messageIndex d partialLine (Done # reads) s = s"
| "readLoopDeeper pf messageIndex d partialLine (Throws e # reads) s =
     s\<lparr>effects := effects s @ [UnhandledRejection e]\<rparr>"
| "readLoopDeeper pf messageIndex d partialLine (Chunk v # reads) s =
     (case decode (decoder_step pf) d v of (d', chunk) \<Rightarrow>
        (let text = partialLine @ chunk;
             lines = splitOn nl text;
             partialLine' = (if lines = [] then [] else last lines)
         in readLoopDeeper pf messageIndex d' partialLine' reads
              (forLinesDeeper pf messageIndex (butlast lines) s)))"

definition readStreamDeeper ::
  "'d platform \<Rightarrow> int \<Rightarrow> read list \<Rightarrow> 'a session_scheme \<Rightarrow> 'a session_scheme" where
  "readStreamDeeper pf messageIndex reads s =
     readLoopDeeper pf messageIndex (decoder_init pf) [] reads s"

definition startSession :: "world \<Rightarrow> session" where
  "startSession w =
     \<lparr>messages = messages w, researchMessages = researchMessages w,
      remainingQuota = remainingQuota w, isLoading = isLoading w, failure = failure w,
      effects = effects w, eventBuffer = [], promise = Pending\<rparr>"

text \<open>\<open>messages[messageIndex]?.sessionId\<close>\<close>

definition sessionIdAt :: "message list \<Rightarrow> int \<Rightarrow> jsval" where
  "sessionIdAt ms i =
     (if 0 \<le> i \<and> nat i < length ms then readField (ms ! nat i) SessionId else JUndefined)"

text \<open>The \<open>.catch\<close> of the request (lines 350-356).\<close>

definition deeperFailed :: "int \<Rightarrow> js_error \<Rightarrow> 'a session_scheme \<Rightarrow> 'a session_scheme" where
  "deeperFailed messageIndex err s =
     reject err
       (updateMessage messageIndex
          [IsLoadingDeeper \<mapsto> JBool False, CanGoDeeper \<mapsto> JBool True] True s)"

definition requestDeeperAnalysis :: "'d platform \<Rightarrow> hook \<Rightarrow> env \<Rightarrow> int \<Rightarrow> world \<Rightarrow> session" where
  "requestDeeperAnalysis pf h ev messageIndex w =
     (if \<not> truthy (sessionIdAt (rendered h) messageIndex) \<or> \<not> truthy (auth_token h)
      then (startSession w)\<lparr>promise := Resolved\<rparr>
      else
        (let s1 = updateMessage messageIndex
                    [IsLoadingDeeper \<mapsto> JBool True, CanGoDeeper \<mapsto> JBool False] True
                    (startSession w);
             s2 = request DeeperEndpoint
                    (JObj [(js ''sessionId'', sessionIdAt (rendered h) messageIndex)]) s1
         in case fetched ev of
              Inl e \<Rightarrow> deeperFailed messageIndex e s2
            | Inr r \<Rightarrow>
                if \<not> resp_ok r then deeperFailed messageIndex (RequestFailed (resp_status r)) s2
                else
                  (case resp_body r of
                     None \<Rightarrow>
                       deeperFailed messageIndex (ErrorOf (JStr (js ''Stream not available''))) s2
                   | Some reads \<Rightarrow> readStreamDeeper pf messageIndex reads s2)))"

section \<open>sendMessage (useChatApi.ts, lines 363-407)\<close>

definition theWorld :: "'a world_scheme \<Rightarrow> world" where
  "theWorld t =
     \<lparr>messages = messages t, researchMessages = researchMessages t,
      remainingQuota = remainingQuota t, isLoading = isLoading t, failure = failure t,
      effects = effects t\<rparr>"

text \<open>The \<open>catch\<close> and the \<open>finally\<close> of \<open>sendMessage\<close>.\<close>

definition chatFailed :: "hook \<Rightarrow> js_error \<Rightarrow> world \<Rightarrow> world" where
  "chatFailed h err w =
     (let w1 = consoleError ''Chat error:'' err w;
          w2 = w1\<lparr>failure := Some err\<rparr>;
          w3 = (if onError h then w2\<lparr>effects := effects w2 @ [OnError err]\<rparr> else w2)
      in w3\<lparr>isLoading := False\<rparr>)"

text \<open>
  The world \<open>sendMessage\<close> leaves once everything the environment supplies has been
  consumed. While the awaited promise is pending the function is suspended, and neither
  its \<open>catch\<close> nor its \<open>finally\<close> has run. The function resumes when the promise
  settles, which may be before the rest of the body is read: the cells it writes
  (\<open>isLoading\<close>, \<open>failure\<close>) are written by nothing else, but in \<open>effects\<close> its
  console line and its \<open>onError\<close> call are placed after the effects of the whole
  stream, so their place among the console lines of events processed after the
  settlement is not the browser's.
\<close>

definition sendMessage :: "'d platform \<Rightarrow> hook \<Rightarrow> env \<Rightarrow> jsstring \<Rightarrow> world \<Rightarrow> world" where
  "sendMessage pf h ev content w =
     (if trim content = [] then w
      else if \<not> auth_isAuthenticated h then
        (if onAuthRequired h then w\<lparr>effects := effects w @ [AuthRequired]\<rparr> else w)
      else
        (let userMessage =
               [Role \<mapsto> JStr (js ''user''),
                Content \<mapsto> JStr (trim content),
                Timestamp \<mapsto> JDate (sentAt ev),
                Mode \<mapsto> JStr (if isResearchMode h then js ''research'' else js ''regular'')];
             w1 = addMessage userMessage (isResearchMode h) w;
             w2 = w1\<lparr>isLoading := True\<rparr>;
             w3 = w2\<lparr>failure := None\<rparr>
         in if isResearchMode h \<and> truthy (articleContext h) then
              (let t = sendStreamingMessage pf h ev content w3
               in case promise t of
                    Pending \<Rightarrow> theWorld t
                  | Resolved \<Rightarrow> (theWorld t)\<lparr>isLoading := False\<rparr>
                  | Rejected err \<Rightarrow> chatFailed h err (theWorld t))
            else
              (case sendStandardMessage h ev content w3 of
                 (None, w4) \<Rightarrow> w4\<lparr>isLoading := False\<rparr>
               | (Some err, w4) \<Rightarrow> chatFailed h err w4)))"

section \<open>A concrete platform and the scenarios\<close>

text \<open>
  The UTF-8 decoder of the Encoding Standard, as \<open>TextDecoder\<close> runs it (errors are
  replaced by U+FFFD, a leading byte order mark is dropped), emitting UTF-16 code units.
\<close>

record utf8 =
  codePoint :: nat
  bytesSeen :: nat
  bytesNeeded :: nat
  lowerBoundary :: nat
  upperBoundary :: nat
  bomSeen :: bool

definition utf8_init :: utf8 where
  "utf8_init =
     \<lparr>codePoint = 0, bytesSeen = 0, bytesNeeded = 0, lowerBoundary = 0x80,
      upperBoundary = 0xBF, bomSeen = False\<rparr>"

definition utf16 :: "nat \<Rightarrow> jsstring" where
  "utf16 cp =
     (if cp < 0x10000 then [of_nat cp]
      else [of_nat (0xD800 + (cp - 0x10000) div 0x400),
            of_nat (0xDC00 + (cp - 0x10000) mod 0x400)])"

definition emit :: "utf8 \<Rightarrow> nat \<Rightarrow> utf8 \<times> jsstring" where
  "emit d cp =
     (d\<lparr>codePoint := 0, bytesSeen := 0, bytesNeeded := 0, lowerBoundary := 0x80,
        upperBoundary := 0xBF, bomSeen := True\<rparr>,
      if \<not> bomSeen d \<and> cp = 0xFEFF then [] else utf16 cp)"

definition utf8_lead :: "utf8 \<Rightarrow> nat \<Rightarrow> utf8 \<times> jsstring" where
  "utf8_lead d b =
     (if b \<le> 0x7F then emit d b
      else if 0xC2 \<le> b \<and> b \<le> 0xDF then (d\<lparr>bytesNeeded := 1, codePoint := b mod 0x20\<rparr>, [])
      else if 0xE0 \<le> b \<and> b \<le> 0xEF then
        (d\<lparr>lowerBoundary := (if b = 0xE0 then 0xA0 else 0x80),
           upperBoundary := (if b = 0xED then 0x9F else 0xBF),
           bytesNeeded := 2, codePoint := b mod 0x10\<rparr>, [])
      else if 0xF0 \<le> b \<and> b \<le> 0xF4 then
        (d\<lparr>lowerBoundary := (if b = 0xF0 then 0x90 else 0x80),
           upperBoundary := (if b = 0xF4 then 0x8F else 0xBF),
           bytesNeeded := 3, codePoint := b mod 0x08\<rparr>, [])
      else emit d 0xFFFD)"

definition utf8_step :: "utf8 \<Rightarrow> 8 word \<Rightarrow> utf8 \<times> jsstring" where
  "utf8_step d w =
     (let b = unat w in
      if bytesNeeded d = 0 then utf8_lead d b
      else if b < lowerBoundary d \<or> upperBoundary d < b then
        (case emit d 0xFFFD of (d1, out1) \<Rightarrow>
           (case utf8_lead d1 b of (d2, out2) \<Rightarrow> (d2, out1 @ out2)))
      else
        (let d1 = d\<lparr>lowerBoundary := 0x80, upperBoundary := 0xBF,
                    codePoint := codePoint d * 0x40 + b mod 0x40,
                    bytesSeen := bytesSeen d + 1\<rparr>
         in if bytesSeen d1 \<noteq> bytesNeeded d1 then (d1, []) else emit d1 (codePoint d1)))"

definition bytes :: "string \<Rightarrow> 8 word list" where
  "bytes s = map (\<lambda>c. of_nat (of_char c)) s"

text \<open>
  \<open>JSON.parse\<close> on the payloads of the scenarios; every other string used below is one
  that \<open>JSON.parse\<close> rejects.
\<close>

definition scenario_parse :: "jsstring \<Rightarrow> jsval option" where
  "scenario_parse =
     map_of
       [(js ''{\"message\":\"thinking\"}'', JObj [(js ''message'', JStr (js ''thinking''))]),
        (js ''{\"sessionId\":\"s1\",\"canGoDeeper\":true}'',
           JObj [(js ''sessionId'', JStr (js ''s1'')), (js ''canGoDeeper'', JBool True)]),
        (js ''{\"message\":\"boom\"}'', JObj [(js ''message'', JStr (js ''boom''))]),
        (js ''{\"analysis\":\"more\"}'', JObj [(js ''analysis'', JStr (js ''more''))]),
        (js ''{}'', JObj []),
        (js ''null'', JNull)]"

definition browser :: "utf8 platform" where
  "browser =
     \<lparr>JSON_parse = scenario_parse, decoder_init = utf8_init, decoder_step = utf8_step\<rparr>"

text \<open>
  A research conversation of one user message and the placeholder of the turn in
  flight, at index 1.
\<close>

definition question1 :: message where
  "question1 =
     [Role \<mapsto> JStr (js ''user''), Content \<mapsto> JStr (js ''Why?''), Timestamp \<mapsto> JDate 1000,
      Mode \<mapsto> JStr (js ''research'')]"

definition inFlight :: turn where
  "inFlight =
     \<lparr>messages = [],
      researchMessages =
        [question1, placeholderMessage \<lparr>sentAt = 1000, repliedAt = 1001, fetched = Inl TypeError\<rparr> False],
      remainingQuota = JNull, isLoading = True, failure = None, effects = [],
      eventBuffer = [], promise = Pending, receivedDone = False\<rparr>"

text \<open>
  A signed-in reader of an article in research mode, whose render saw the one question
  of the conversation \<open>asked\<close>; and an environment whose request never reaches the
  server.
\<close>

definition reader :: hook where
  "reader =
     \<lparr>auth_isAuthenticated = True, auth_token = JStr (js ''jwt''), isResearchMode = True,
      articleContext = JObj [(js ''slug'', JStr (js ''paper'')), (js ''title'', JStr (js ''Paper'')),
                             (js ''content'', JStr (js ''Text''))],
      rendered = [question1], onAuthRequired = True, onError = False\<rparr>"

definition asked :: world where
  "asked =
     \<lparr>messages = [], researchMessages = [question1], remainingQuota = JNull,
      isLoading = False, failure = None, effects = []\<rparr>"

definition offline :: env where
  "offline = \<lparr>sentAt = 1000, repliedAt = 1001, fetched = Inl (HostError (js ''Failed to fetch''))\<rparr>"


text \<open>
  A server that answers: the response is successful and its body delivers the given
  reads. The stream \<open>statusDone\<close> is a status event and a done event, cut in two
  inside the first payload; \<open>lateStatus\<close> is one more status event and \<open>boom\<close> an error
  event.
\<close>

definition answering :: "read list \<Rightarrow> env" where
  "answering reads =
     \<lparr>sentAt = 1000, repliedAt = 1001,
      fetched = Inr \<lparr>resp_ok = True, resp_status = 200, resp_text = [],
                      resp_json = Inl SyntaxError, resp_body = Some reads\<rparr>\<rparr>"

definition statusDone :: "8 word list list" where
  "statusDone =
     [bytes ''event: status\<newline>data: {\"mess'',
      bytes ''age\":\"thinking\"}\<newline>\<newline>event: done\<newline>data: {\"sessionId\":\"s1\",\"canGoDeeper\":true}\<newline>\<newline>'']"

definition lateStatus :: "8 word list" where
  "lateStatus = bytes ''event: status\<newline>data: {\"message\":\"thinking\"}\<newline>\<newline>''"

definition boom :: "8 word list" where
  "boom = bytes ''event: error\<newline>data: {\"message\":\"boom\"}\<newline>\<newline>''"

text \<open>
  The conversation once the turn has completed, as a later render sees it: the answer
  at index 1 carries the session id.
\<close>

definition answered :: message where
  "answered =
     [Role \<mapsto> JStr (js ''assistant''), Content \<mapsto> JStr (js ''Because.''),
      Timestamp \<mapsto> JDate 1001, Mode \<mapsto> JStr (js ''research''),
      IsStreaming \<mapsto> JBool False, StreamingStatus \<mapsto> JUndefined,
      Confidence \<mapsto> JNum 85, Route \<mapsto> JStr (js ''research''),
      SessionId \<mapsto> JStr (js ''s1''), CanGoDeeper \<mapsto> JBool True,
      DeeperSuggestion \<mapsto> JUndefined]"

definition discussed :: world where
  "discussed =
     \<lparr>messages = [], researchMessages = [question1, answered], remainingQuota = JNull,
      isLoading = False, failure = None, effects = []\<rparr>"

definition follower :: hook where
  "follower = reader\<lparr>rendered := [question1, answered]\<rparr>"

text \<open>
  A done event with the payload \<open>null\<close>.
\<close>

definition nullDone :: "8 word list" where
  "nullDone = bytes ''event: done\<newline>data: null\<newline>\<newline>''"

text \<open>
  A turn that a done event has completed: it is marked as done, its promise is settled,
  and the message at the captured index, if there is one, has \<open>isStreaming = false\<close>.
\<close>

definition completed :: "nat \<Rightarrow> 'a turn_scheme \<Rightarrow> bool" where
  "completed n t \<longleftrightarrow>
     receivedDone t \<and> promise t \<noteq> Pending
     \<and> (n < length (researchMessages t) \<longrightarrow>
          (researchMessages t ! n) IsStreaming = Some (JBool False))"

section \<open>Framing lemmas\<close>

lemma splitOn_nonempty: "splitOn sep xs \<noteq> []"
  by (induction xs) (auto simp: consHead_def split: list.splits)

lemma decode_append:
  "decode step d (a @ b) =
     (case decode step d a of (d1, out1) \<Rightarrow>
        (case decode step d1 b of (d2, out2) \<Rightarrow> (d2, out1 @ out2)))"
  by (induction a arbitrary: d) (auto split: prod.splits)

lemma splitOn_append:
  "splitOn sep (a @ b) = butlast (splitOn sep a) @ splitOn sep (last (splitOn sep a) @ b)"
proof (induction a)
  case Nil
  then show ?case by simp
next
  case (Cons x a)
  show ?case
  proof (cases "x = sep")
    case True
    then show ?thesis using Cons by (simp add: splitOn_nonempty)
  next
    case False
    obtain p ps where S: "splitOn sep a = p # ps"
      using splitOn_nonempty [of sep a] by (cases "splitOn sep a") auto
    show ?thesis
    proof (cases ps)
      case Nil
      then show ?thesis using False Cons S by (simp add: consHead_def)
    next
      case (Cons q qs)
      then show ?thesis using False Cons.IH S by (simp add: consHead_def)
    qed
  qed
qed

lemma last_splitOn_nosep: "sep \<notin> set (last (splitOn sep a))"
proof (induction a)
  case Nil
  then show ?case by simp
next
  case (Cons x a)
  obtain p ps where S: "splitOn sep a = p # ps"
    using splitOn_nonempty [of sep a] by (cases "splitOn sep a") auto
  show ?case using Cons S by (cases ps) (auto simp: consHead_def)
qed

lemma splitOn_nosep: "sep \<notin> set p \<Longrightarrow> splitOn sep p = [p]"
  by (induction p) (auto simp: consHead_def)

lemma butlast_splitOn_append:
  "butlast (splitOn sep (p @ a @ b)) =
     butlast (splitOn sep (p @ a)) @ butlast (splitOn sep (last (splitOn sep (p @ a)) @ b))"
  using splitOn_append [of sep "p @ a" b] by (simp add: butlast_append splitOn_nonempty)

lemma last_splitOn_append:
  "last (splitOn sep (p @ a @ b)) = last (splitOn sep (last (splitOn sep (p @ a)) @ b))"
  using splitOn_append [of sep "p @ a" b] by (simp add: splitOn_nonempty)

lemma processed_append: "processed (a @ b) = processed a @ processed b"
  by (simp add: processed_def)

lemma forLines_foldl:
  "forLines pf idx lines t = foldl (\<lambda>t l. processLine pf idx l t) t (processed lines)"
  by (induction lines arbitrary: t) (auto simp: processed_def)

lemma forLines_append:
  "forLines pf idx (a @ b) t = forLines pf idx b (forLines pf idx a t)"
  by (induction a arbitrary: t) auto

lemma framed_two:
  "framed pf d p (v1 # v2 # vs) = framed pf d p ((v1 @ v2) # vs)"
  by (simp add: decode_append butlast_splitOn_append last_splitOn_append processed_append
        Let_def split: prod.splits)

lemma leftover_two:
  "leftover pf d p (v1 # v2 # vs) = leftover pf d p ((v1 @ v2) # vs)"
  by (simp add: decode_append last_splitOn_append split: prod.splits)

lemma framed_concat:
  "nl \<notin> set p \<Longrightarrow> framed pf d p vs = framed pf d p [concat vs]"
proof (induction vs arbitrary: d p)
  case Nil
  then show ?case by (simp add: splitOn_nosep processed_def)
next
  case (Cons v vs)
  obtain d1 c1 where D: "decode (decoder_step pf) d v = (d1, c1)"
    by (cases "decode (decoder_step pf) d v")
  have "framed pf d p (v # vs) = framed pf d p (v # [concat vs])"
    using Cons.IH [of "last (splitOn nl (p @ c1))" d1] D
    by (simp add: last_splitOn_nosep Let_def)
  then show ?case by (simp only: framed_two concat.simps append_Nil2)
qed

lemma leftover_concat:
  "nl \<notin> set p \<Longrightarrow> leftover pf d p vs = leftover pf d p [concat vs]"
proof (induction vs arbitrary: d p)
  case Nil
  then show ?case by (simp add: splitOn_nosep)
next
  case (Cons v vs)
  obtain d1 c1 where D: "decode (decoder_step pf) d v = (d1, c1)"
    by (cases "decode (decoder_step pf) d v")
  have "leftover pf d p (v # vs) = leftover pf d p (v # [concat vs])"
    using Cons.IH [of "last (splitOn nl (p @ c1))" d1] D
    by (simp add: last_splitOn_nosep)
  then show ?case by (simp only: leftover_two concat.simps append_Nil2)
qed

text \<open>
  While chunks arrive, the loop does nothing but hand the framed lines to
  \<open>processLine\<close>, in order.
\<close>

lemma readLoop_chunks:
  "readLoop pf idx d p (map Chunk vs @ rest) t =
     readLoop pf idx (fst (leftover pf d p vs)) (snd (leftover pf d p vs)) rest
       (foldl (\<lambda>t l. processLine pf idx l t) t (framed pf d p vs))"
  by (induction vs arbitrary: d p t)
     (auto simp: forLines_foldl splitOn_nonempty Let_def split: prod.splits)

section \<open>Strings\<close>

lemma of_char_lt: "(of_char c :: nat) < 65536"
  using nat_of_char_less_256 [of c] by linarith

lemma unat_unit: "unat (of_nat (of_char c) :: 16 word) = of_char c"
  using of_char_lt [of c] by (simp add: unat_of_nat)

lemma unit_inj: "(of_nat (of_char c) :: 16 word) = of_nat (of_char d) \<longleftrightarrow> c = d"
proof
  assume "(of_nat (of_char c) :: 16 word) = of_nat (of_char d)"
  then have "unat (of_nat (of_char c) :: 16 word) = unat (of_nat (of_char d) :: 16 word)"
    by (rule arg_cong)
  then have "(of_char c :: nat) = of_char d"
    by (simp only: unat_unit)
  then show "c = d" by (simp only: inj_eq [OF inj_of_char])
next
  assume "c = d" then show "(of_nat (of_char c) :: 16 word) = of_nat (of_char d)" by (simp only:)
qed


lemma js_Nil: "js [] = []" by (simp add: js_def)
lemma js_Cons: "js (c # s) = of_nat (of_char c) # js s" by (simp add: js_def)
lemma js_eq_Nil: "js s = [] \<longleftrightarrow> s = []" by (simp add: js_def)

lemma js_eq_iff: "js a = js b \<longleftrightarrow> a = b"
proof (induction a arbitrary: b)
  case Nil
  then show ?case by (cases b) (simp_all add: js_Nil js_Cons)
next
  case (Cons x a)
  then show ?case by (cases b) (simp_all only: js_Nil js_Cons unit_inj list.simps)
qed

lemma length_js: "length (js s) = length s" by (simp add: js_def)
lemma drop_js: "drop n (js s) = js (drop n s)" by (simp add: js_def drop_map)
lemma take_js: "take n (js s) = js (take n s)" by (simp add: js_def take_map)
lemma js_append: "js (a @ b) = js a @ js b" by (simp add: js_def)
lemma startsWith_js: "startsWith (js s) (js p) \<longleftrightarrow> take (length p) s = p"
  by (simp add: startsWith_def take_js length_js js_eq_iff)

section \<open>What each store and promise operation leaves alone\<close>

lemma updateMessage_more [simp]:
  "receivedDone (updateMessage i u r t) = receivedDone t"
  "promise (updateMessage i u r s) = promise s"
  "eventBuffer (updateMessage i u r s) = eventBuffer s"
  "effects (updateMessage i u r w) = effects w"
  "remainingQuota (updateMessage i u r w) = remainingQuota w"
  "isLoading (updateMessage i u r w) = isLoading w"
  "failure (updateMessage i u r w) = failure w"
  by (simp_all add: updateMessage_def)

lemma consoleError_more [simp]:
  "receivedDone (consoleError l e t) = receivedDone t"
  "promise (consoleError l e s) = promise s"
  "eventBuffer (consoleError l e s) = eventBuffer s"
  "researchMessages (consoleError l e w) = researchMessages w"
  "messages (consoleError l e w) = messages w"
  "remainingQuota (consoleError l e w) = remainingQuota w"
  by (simp_all add: consoleError_def)

lemma setRemainingQuota_more [simp]:
  "receivedDone (setRemainingQuota q t) = receivedDone t"
  "promise (setRemainingQuota q s) = promise s"
  "eventBuffer (setRemainingQuota q s) = eventBuffer s"
  "researchMessages (setRemainingQuota q w) = researchMessages w"
  "messages (setRemainingQuota q w) = messages w"
  "effects (setRemainingQuota q w) = effects w"
  by (simp_all add: setRemainingQuota_def)

lemma resolve_more [simp]:
  "receivedDone (resolve t) = receivedDone t"
  "eventBuffer (resolve s) = eventBuffer s"
  "researchMessages (resolve s) = researchMessages s"
  "messages (resolve s) = messages s"
  "effects (resolve s) = effects s"
  "remainingQuota (resolve s) = remainingQuota s"
  "promise s \<noteq> Pending \<Longrightarrow> resolve s = s"
  by (simp_all add: resolve_def)

lemma reject_more [simp]:
  "receivedDone (reject e t) = receivedDone t"
  "eventBuffer (reject e s) = eventBuffer s"
  "researchMessages (reject e s) = researchMessages s"
  "messages (reject e s) = messages s"
  "effects (reject e s) = effects s"
  "remainingQuota (reject e s) = remainingQuota s"
  "promise s \<noteq> Pending \<Longrightarrow> reject e s = s"
  by (simp_all add: reject_def)

section \<open>The event switch\<close>

lemma reading_ok: "\<not> nullish data \<Longrightarrow> reading data k w cont = cont (dot data k)"
  by (cases data) (simp_all add: reading_def dot_def nullish_def)

lemma reading_nullish:
  "nullish data \<Longrightarrow> reading data k w cont = consoleError ''Failed to parse SSE data:'' TypeError w"
  by (cases data) (simp_all add: reading_def nullish_def)

lemma receivedDone_dispatch:
  "receivedDone t \<Longrightarrow> receivedDone (dispatch idx ev data t)"
  by (cases "nullish data") (simp_all add: dispatch_def reading_ok reading_nullish Let_def)

lemma promise_dispatch:
  "promise t \<noteq> Pending \<Longrightarrow> promise (dispatch idx ev data t) = promise t"
  by (cases "nullish data") (simp_all add: dispatch_def reading_ok reading_nullish Let_def)


lemma startsWith_data_not_event:
  "startsWith line (js ''data: '') \<Longrightarrow> \<not> startsWith line (js ''event: '')"
  by (cases line) (auto simp: startsWith_def js_def)

lemma processLine_data:
  "startsWith line (js ''data: '') \<Longrightarrow>
   processLine pf idx line t =
     (case JSON_parse pf (drop 6 line) of
        None \<Rightarrow> consoleError ''Failed to parse SSE data:'' SyntaxError t
      | Some data \<Rightarrow> dispatch idx (eventBuffer t) data t)\<lparr>eventBuffer := []\<rparr>"
  using startsWith_data_not_event [of line] by (simp add: processLine_def)

lemma processLine_event:
  "startsWith line (js ''event: '') \<Longrightarrow>
   processLine pf idx line t = t\<lparr>eventBuffer := trim (drop 7 line)\<rparr>"
  by (simp add: processLine_def)

lemma dispatch_status:
  "\<not> nullish data \<Longrightarrow>
   dispatch idx (js ''status'') data t =
     updateMessage idx
       [StreamingStatus \<mapsto> orElse (dot data ''message'') (JStr (js ''Generating...''))] True t"
  by (simp add: dispatch_def reading_ok js_eq_iff)

lemma dispatch_done:
  "\<not> nullish data \<Longrightarrow>
   dispatch idx (js ''done'') data t =
     resolve
       (if dot data ''remainingQuota'' \<noteq> JUndefined
        then setRemainingQuota (dot data ''remainingQuota'')
               (updateMessage idx
                 [IsStreaming \<mapsto> JBool False,
                  StreamingStatus \<mapsto> JUndefined,
                  Confidence \<mapsto> JNum 85,
                  Route \<mapsto> JStr (js ''research''),
                  SessionId \<mapsto> dot data ''sessionId'',
                  CanGoDeeper \<mapsto> dot data ''canGoDeeper'',
                  DeeperSuggestion \<mapsto> dot data ''deeperSuggestion''] True
                 (t\<lparr>receivedDone := True\<rparr>))
        else updateMessage idx
                 [IsStreaming \<mapsto> JBool False,
                  StreamingStatus \<mapsto> JUndefined,
                  Confidence \<mapsto> JNum 85,
                  Route \<mapsto> JStr (js ''research''),
                  SessionId \<mapsto> dot data ''sessionId'',
                  CanGoDeeper \<mapsto> dot data ''canGoDeeper'',
                  DeeperSuggestion \<mapsto> dot data ''deeperSuggestion''] True
                 (t\<lparr>receivedDone := True\<rparr>))"
  by (simp add: dispatch_def reading_ok js_eq_iff Let_def)

lemma dispatch_error:
  "\<not> nullish data \<Longrightarrow>
   dispatch idx (js ''error'') data t =
     reject (ErrorOf (orElse (dot data ''message'') (JStr (js ''Stream error'')))) t"
  by (simp add: dispatch_def reading_ok js_eq_iff)

lemma receivedDone_processLine:
  "receivedDone t \<Longrightarrow> receivedDone (processLine pf idx line t)"
  by (simp add: processLine_def receivedDone_dispatch Let_def split: option.splits)

lemma promise_processLine:
  "promise t \<noteq> Pending \<Longrightarrow> promise (processLine pf idx line t) = promise t"
  by (simp add: processLine_def promise_dispatch Let_def split: option.splits)

lemma receivedDone_forLines:
  "receivedDone t \<Longrightarrow> receivedDone (forLines pf idx lines t)"
  by (induction lines arbitrary: t) (simp_all add: receivedDone_processLine)

lemma promise_forLines:
  "promise t \<noteq> Pending \<Longrightarrow> promise (forLines pf idx lines t) = promise t"
  by (induction lines arbitrary: t) (simp_all add: promise_processLine)

lemma promise_readLoop:
  "promise t \<noteq> Pending \<Longrightarrow> promise (readLoop pf idx d p reads t) = promise t"
proof (induction reads arbitrary: d p t)
  case Nil
  then show ?case by simp
next
  case (Cons r reads)
  show ?case
  proof (cases r)
    case (Chunk v)
    obtain d' c where D: "decode (decoder_step pf) d v = (d', c)"
      by (cases "decode (decoder_step pf) d v")
    show ?thesis using Cons.prems Chunk D
      by (simp add: Let_def Cons.IH promise_forLines)
  next
    case Done
    then show ?thesis using Cons.prems by simp
  next
    case (Throws e)
    then show ?thesis using Cons.prems by simp
  qed
qed

lemma readLoop_close_after_done:
  "receivedDone t \<Longrightarrow>
   readLoop pf idx d p (map Chunk vs @ Done # rest) t = readLoop pf idx d p (map Chunk vs) t"
proof (induction vs arbitrary: d p t)
  case Nil
  then show ?case by simp
next
  case (Cons v vs)
  obtain d' c where D: "decode (decoder_step pf) d v = (d', c)"
    by (cases "decode (decoder_step pf) d v")
  show ?case using Cons.prems D
    by (simp add: Let_def Cons.IH receivedDone_forLines)
qed


lemma trim_id:
  "s \<noteq> [] \<Longrightarrow> \<not> isWhiteSpace (hd s) \<Longrightarrow> \<not> isWhiteSpace (last s) \<Longrightarrow> trim s = s"
proof -
  assume ne: "s \<noteq> []" and h: "\<not> isWhiteSpace (hd s)" and l: "\<not> isWhiteSpace (last s)"
  have a: "dropWhile isWhiteSpace s = s"
    using ne h by (cases s) simp_all
  obtain x xs where r: "rev s = x # xs"
    using ne by (cases "rev s") simp_all
  have "x = last s"
    using r ne hd_rev [of s] by simp
  then have "\<not> isWhiteSpace x"
    using l by simp
  then have b: "dropWhile isWhiteSpace (rev s) = rev s"
    by (simp only: r dropWhile.simps if_False)
  show ?thesis by (simp add: trim_def a b)
qed

lemma trim_js:
  "s \<noteq> [] \<Longrightarrow> \<not> isWhiteSpace (of_nat (of_char (hd s))) \<Longrightarrow>
   \<not> isWhiteSpace (of_nat (of_char (last s))) \<Longrightarrow> trim (js s) = js s"
  by (rule trim_id) (simp_all add: js_def hd_map last_map)

lemma startsWith_nonempty: "startsWith line (js ''data: '') \<Longrightarrow> line \<noteq> []"
  by (auto simp: startsWith_def js_def)

section \<open>Patches, requests and the start of a turn\<close>

lemma length_patchAt [simp]: "length (patchAt i u ms) = length ms"
  by (simp add: patchAt_def)

lemma patchAt_nth:
  "n < length ms \<Longrightarrow> patchAt (int n) u ms ! n = (ms ! n) ++ u"
  by (simp add: patchAt_def)

lemma updateMessage_research [simp]:
  "researchMessages (updateMessage i u True w) = patchAt i u (researchMessages w)"
  "messages (updateMessage i u True w) = messages w"
  by (simp_all add: updateMessage_def)

lemma request_more [simp]:
  "researchMessages (request e b w) = researchMessages w"
  "messages (request e b w) = messages w"
  "promise (request e b s) = promise s"
  "eventBuffer (request e b s) = eventBuffer s"
  "receivedDone (request e b t) = receivedDone t"
  by (simp_all add: request_def)

lemma addMessage_more [simp]:
  "researchMessages (addMessage m True w) = researchMessages w @ [m]"
  "messages (addMessage m True w) = messages w"
  "promise (addMessage m b s) = promise s"
  "eventBuffer (addMessage m b s) = eventBuffer s"
  "receivedDone (addMessage m b t) = receivedDone t"
  by (simp_all add: addMessage_def)

lemma startTurn_more [simp]:
  "researchMessages (startTurn w) = researchMessages w"
  "messages (startTurn w) = messages w"
  "promise (startTurn w) = Pending"
  "eventBuffer (startTurn w) = []"
  "receivedDone (startTurn w) = False"
  by (simp_all add: startTurn_def)

lemma sendStreamingMessage_reads:
  assumes "truthy (articleContext h)" and "fetched ev = Inr r" and "resp_ok r"
    and "resp_body r = Some reads"
  shows "sendStreamingMessage pf h ev question w =
           readStream pf (int (length (rendered h))) reads
             (request StreamEndpoint (requestBody h question)
                (addMessage (placeholderMessage ev (truthy (existingSessionId (rendered h)))) True
                   (startTurn w)))"
  using assms by (simp add: sendStreamingMessage_def Let_def)

section \<open>Event pairs and whole streams\<close>

lemma status_event:
  assumes "JSON_parse pf (js ''{\"message\":\"thinking\"}'') =
             Some (JObj [(js ''message'', JStr (js ''thinking''))])"
  shows "foldl (\<lambda>t l. processLine pf idx l t) t
           [js ''event: status'', js ''data: {\"message\":\"thinking\"}''] =
         (updateMessage idx [StreamingStatus \<mapsto> JStr (js ''thinking'')] True t)
           \<lparr>eventBuffer := []\<rparr>"
proof -
  have d: "dot (JObj [(js ''message'', JStr (js ''thinking''))]) ''message'' = JStr (js ''thinking'')"
    by (simp add: dot_def)
  have e: "processLine pf idx (js ''event: status'') t = t\<lparr>eventBuffer := js ''status''\<rparr>"
    by (simp add: processLine_event startsWith_js drop_js trim_js isWhiteSpace_def)
  show ?thesis
    by (simp add: e processLine_data startsWith_js drop_js assms dispatch_status nullish_def d
          orElse_def js_eq_Nil updateMessage_def)
qed

lemma done_event:
  assumes "JSON_parse pf (js ''{\"sessionId\":\"s1\",\"canGoDeeper\":true}'') =
             Some (JObj [(js ''sessionId'', JStr (js ''s1'')), (js ''canGoDeeper'', JBool True)])"
  shows "foldl (\<lambda>t l. processLine pf idx l t) t
           [js ''event: done'', js ''data: {\"sessionId\":\"s1\",\"canGoDeeper\":true}''] =
         (resolve (updateMessage idx
                 [IsStreaming \<mapsto> JBool False, StreamingStatus \<mapsto> JUndefined,
                  Confidence \<mapsto> JNum 85, Route \<mapsto> JStr (js ''research''),
                  SessionId \<mapsto> JStr (js ''s1''), CanGoDeeper \<mapsto> JBool True,
                  DeeperSuggestion \<mapsto> JUndefined] True (t\<lparr>receivedDone := True\<rparr>)))
           \<lparr>eventBuffer := []\<rparr>"
proof -
  let ?o = "JObj [(js ''sessionId'', JStr (js ''s1'')), (js ''canGoDeeper'', JBool True)]"
  have d: "dot ?o ''sessionId'' = JStr (js ''s1'')" "dot ?o ''canGoDeeper'' = JBool True"
    "dot ?o ''deeperSuggestion'' = JUndefined" "dot ?o ''remainingQuota'' = JUndefined"
    by (simp_all add: dot_def js_eq_iff)
  have e: "processLine pf idx (js ''event: done'') t = t\<lparr>eventBuffer := js ''done''\<rparr>"
    by (simp add: processLine_event startsWith_js drop_js trim_js isWhiteSpace_def)
  show ?thesis
    by (simp add: e processLine_data startsWith_js drop_js assms dispatch_done nullish_def d
          updateMessage_def resolve_def)
qed

lemma error_event:
  assumes "JSON_parse pf (js ''{\"message\":\"boom\"}'') =
             Some (JObj [(js ''message'', JStr (js ''boom''))])"
  shows "foldl (\<lambda>t l. processLine pf idx l t) t
           [js ''event: error'', js ''data: {\"message\":\"boom\"}''] =
         (reject (ErrorOf (JStr (js ''boom''))) t)\<lparr>eventBuffer := []\<rparr>"
proof -
  have d: "dot (JObj [(js ''message'', JStr (js ''boom''))]) ''message'' = JStr (js ''boom'')"
    by (simp add: dot_def)
  have e: "processLine pf idx (js ''event: error'') t = t\<lparr>eventBuffer := js ''error''\<rparr>"
    by (simp add: processLine_event startsWith_js drop_js trim_js isWhiteSpace_def)
  show ?thesis
    by (simp add: e processLine_data startsWith_js drop_js assms dispatch_error nullish_def d
          orElse_def js_eq_Nil reject_def)
qed

lemma readStream_chunks:
  "readStream pf idx (map Chunk vs) t =
     foldl (\<lambda>t l. processLine pf idx l t) t (framed pf (decoder_init pf) [] vs)"
  using readLoop_chunks [of pf idx "decoder_init pf" "[]" vs "[]" t]
  by (simp add: readStream_def)

lemma readStream_chunks_Done:
  "readStream pf idx (map Chunk vs @ [Done]) t =
     (let t' = foldl (\<lambda>t l. processLine pf idx l t) t (framed pf (decoder_init pf) [] vs)
      in if \<not> receivedDone t' then updateMessage idx [IsStreaming \<mapsto> JBool False] True t'
         else t')"
  using readLoop_chunks [of pf idx "decoder_init pf" "[]" vs "[Done]" t]
  by (simp add: readStream_def Let_def)

section \<open>The scenarios on the concrete platform\<close>

lemma unat_byte: "unat (of_nat (of_char c) :: 8 word) = of_char c"
  using nat_of_char_less_256 [of c] by (simp add: unat_of_nat)

lemma utf8_step_ascii:
  "bytesNeeded d = 0 \<Longrightarrow> (of_char c :: nat) < 128 \<Longrightarrow>
   snd (utf8_step d (of_nat (of_char c))) = [of_nat (of_char c)]
   \<and> bytesNeeded (fst (utf8_step d (of_nat (of_char c)))) = 0"
  by (simp add: utf8_step_def unat_byte utf8_lead_def emit_def utf16_def Let_def)

lemma decode_ascii:
  "bytesNeeded d = 0 \<Longrightarrow> list_all (\<lambda>c. (of_char c :: nat) < 128) s \<Longrightarrow>
   snd (decode utf8_step d (bytes s)) = js s"
proof (induction s arbitrary: d)
  case Nil
  then show ?case by (simp add: bytes_def js_def)
next
  case (Cons c s)
  obtain d1 o1 where S: "utf8_step d (of_nat (of_char c)) = (d1, o1)"
    by (cases "utf8_step d (of_nat (of_char c))")
  have o1: "o1 = [of_nat (of_char c)]" and d1: "bytesNeeded d1 = 0"
    using utf8_step_ascii [of d c] Cons.prems S by simp_all
  obtain d2 o2 where D: "decode utf8_step d1 (bytes s) = (d2, o2)"
    by (cases "decode utf8_step d1 (bytes s)")
  have "o2 = js s"
    using Cons.IH [OF d1] Cons.prems D by simp
  moreover have "bytes (c # s) = of_nat (of_char c) # bytes s"
    by (simp add: bytes_def)
  ultimately show ?case
    using S o1 D by (simp add: js_Cons)
qed

lemma framed_browser:
  assumes "concat chunks = bytes s" and "list_all (\<lambda>c. (of_char c :: nat) < 128) s"
  shows "framed browser (decoder_init browser) [] chunks = processed (butlast (splitOn nl (js s)))"
proof -
  have "framed browser (decoder_init browser) [] chunks =
        framed browser (decoder_init browser) [] [concat chunks]"
    by (rule framed_concat) simp
  also have "\<dots> = processed (butlast (splitOn nl (snd (decode utf8_step utf8_init (bytes s)))))"
    by (simp add: assms(1) browser_def split: prod.splits)
  also have "snd (decode utf8_step utf8_init (bytes s)) = js s"
    by (rule decode_ascii) (simp_all add: utf8_init_def assms(2))
  finally show ?thesis .
qed

lemma framed_statusDone:
  "framed browser (decoder_init browser) [] statusDone =
     [js ''event: status'', js ''data: {\"message\":\"thinking\"}'',
      js ''event: done'', js ''data: {\"sessionId\":\"s1\",\"canGoDeeper\":true}'']"
proof -
  let ?whole = "''event: status\<newline>data: {\"message\":\"thinking\"}\<newline>\<newline>event: done\<newline>data: {\"sessionId\":\"s1\",\"canGoDeeper\":true}\<newline>\<newline>''"
  have cc: "concat statusDone = bytes ?whole"
    by (simp add: statusDone_def bytes_def)
  have a: "list_all (\<lambda>c. (of_char c :: nat) < 128) ?whole"
    by simp
  have s: "butlast (splitOn nl (js ?whole)) =
        [js ''event: status'', js ''data: {\"message\":\"thinking\"}'', [],
         js ''event: done'', js ''data: {\"sessionId\":\"s1\",\"canGoDeeper\":true}'', []]"
    by (simp add: js_def nl_def consHead_def)
  show ?thesis
    unfolding framed_browser [OF cc a] s
    by (simp add: processed_def trim_js isWhiteSpace_def js_eq_Nil) (simp add: trim_def)
qed

lemma framed_late:
  "framed browser (decoder_init browser) [] (statusDone @ [lateStatus]) =
     [js ''event: status'', js ''data: {\"message\":\"thinking\"}'',
      js ''event: done'', js ''data: {\"sessionId\":\"s1\",\"canGoDeeper\":true}''] @
     [js ''event: status'', js ''data: {\"message\":\"thinking\"}'']"
proof -
  let ?whole = "''event: status\<newline>data: {\"message\":\"thinking\"}\<newline>\<newline>event: done\<newline>data: {\"sessionId\":\"s1\",\"canGoDeeper\":true}\<newline>\<newline>event: status\<newline>data: {\"message\":\"thinking\"}\<newline>\<newline>''"
  have cc: "concat (statusDone @ [lateStatus]) = bytes ?whole"
    by (simp add: statusDone_def lateStatus_def bytes_def)
  have a: "list_all (\<lambda>c. (of_char c :: nat) < 128) ?whole"
    by simp
  have s: "butlast (splitOn nl (js ?whole)) =
        [js ''event: status'', js ''data: {\"message\":\"thinking\"}'', [],
         js ''event: done'', js ''data: {\"sessionId\":\"s1\",\"canGoDeeper\":true}'', [],
         js ''event: status'', js ''data: {\"message\":\"thinking\"}'', []]"
    by (simp add: js_def nl_def consHead_def)
  show ?thesis
    unfolding framed_browser [OF cc a] s
    by (simp add: processed_def trim_js isWhiteSpace_def js_eq_Nil) (simp add: trim_def)
qed

lemma framed_boom:
  "framed browser (decoder_init browser) [] [boom] =
     [js ''event: error'', js ''data: {\"message\":\"boom\"}'']"
proof -
  let ?whole = "''event: error\<newline>data: {\"message\":\"boom\"}\<newline>\<newline>''"
  have cc: "concat [boom] = bytes ?whole"
    by (simp add: boom_def)
  have a: "list_all (\<lambda>c. (of_char c :: nat) < 128) ?whole"
    by simp
  have s: "butlast (splitOn nl (js ?whole)) =
        [js ''event: error'', js ''data: {\"message\":\"boom\"}'', []]"
    by (simp add: js_def nl_def consHead_def)
  show ?thesis
    unfolding framed_browser [OF cc a] s
    by (simp add: processed_def trim_js isWhiteSpace_def js_eq_Nil) (simp add: trim_def)
qed

lemma parse_thinking:
  "JSON_parse browser (js ''{\"message\":\"thinking\"}'') =
     Some (JObj [(js ''message'', JStr (js ''thinking''))])"
  by (simp add: browser_def scenario_parse_def js_eq_iff)

lemma parse_done:
  "JSON_parse browser (js ''{\"sessionId\":\"s1\",\"canGoDeeper\":true}'') =
     Some (JObj [(js ''sessionId'', JStr (js ''s1'')), (js ''canGoDeeper'', JBool True)])"
  by (simp add: browser_def scenario_parse_def js_eq_iff)

lemma parse_boom:
  "JSON_parse browser (js ''{\"message\":\"boom\"}'') =
     Some (JObj [(js ''message'', JStr (js ''boom''))])"
  by (simp add: browser_def scenario_parse_def js_eq_iff)

section \<open>Failures of the deeper analysis that are handled\<close>

lemma startSession_more [simp]:
  "researchMessages (startSession w) = researchMessages w"
  "messages (startSession w) = messages w"
  "promise (startSession w) = Pending"
  "eventBuffer (startSession w) = []"
  "effects (startSession w) = effects w"
  by (simp_all add: startSession_def)

text \<open>
  A rejected fetch, a response that is not successful and a response without a body
  all reach the \<open>.catch\<close> of the request, which restores the two flags and rejects; so
  does an \<open>error\<close> event with a payload other than \<open>null\<close>.
\<close>

lemma deeperFailed_restores:
  assumes "n < length (researchMessages s)" and "promise s = Pending"
  shows "readField (researchMessages (deeperFailed (int n) err s) ! n) IsLoadingDeeper = JBool False
         \<and> readField (researchMessages (deeperFailed (int n) err s) ! n) CanGoDeeper = JBool True
         \<and> promise (deeperFailed (int n) err s) = Rejected err"
  using assms by (simp add: deeperFailed_def patchAt_nth readField_def reject_def)

lemma deeper_request_failures:
  assumes "truthy (sessionIdAt (rendered h) (int n))" and "truthy (auth_token h)"
    and "n < length (researchMessages w)"
    and "fetched ev = Inl e \<and> err = e
         \<or> (\<exists>r. fetched ev = Inr r \<and> \<not> resp_ok r \<and> err = RequestFailed (resp_status r))
         \<or> (\<exists>r. fetched ev = Inr r \<and> resp_ok r \<and> resp_body r = None
                \<and> err = ErrorOf (JStr (js ''Stream not available'')))"
  shows "readField (researchMessages (requestDeeperAnalysis pf h ev (int n) w) ! n) IsLoadingDeeper
           = JBool False
         \<and> readField (researchMessages (requestDeeperAnalysis pf h ev (int n) w) ! n) CanGoDeeper
           = JBool True
         \<and> promise (requestDeeperAnalysis pf h ev (int n) w) = Rejected err"
proof -
  define s2 where "s2 = request DeeperEndpoint
                    (JObj [(js ''sessionId'', sessionIdAt (rendered h) (int n))])
                    (updateMessage (int n)
                       [IsLoadingDeeper \<mapsto> JBool True, CanGoDeeper \<mapsto> JBool False] True
                       (startSession w))"
  have s2: "n < length (researchMessages s2)" "promise s2 = Pending"
    using assms(3) by (simp_all add: s2_def)
  have "requestDeeperAnalysis pf h ev (int n) w = deeperFailed (int n) err s2"
    using assms(1,2,4) by (auto simp: requestDeeperAnalysis_def Let_def s2_def)
  then show ?thesis
    using deeperFailed_restores [OF s2] by simp
qed

lemma deeper_error_event:
  assumes "eventBuffer s = js ''error''" and "startsWith line (js ''data: '')"
    and "JSON_parse pf (drop 6 line) = Some data" and "\<not> nullish data"
    and "n < length (researchMessages s)" and "promise s = Pending"
  shows "readField (researchMessages (processLineDeeper pf (int n) line s) ! n) IsLoadingDeeper
           = JBool False
         \<and> readField (researchMessages (processLineDeeper pf (int n) line s) ! n) CanGoDeeper
           = JBool True
         \<and> promise (processLineDeeper pf (int n) line s) = Rejected (ErrorOf (dot data ''message''))"
  using assms startsWith_data_not_event [of line]
  by (simp add: processLineDeeper_def dispatchDeeper_def js_eq_iff Let_def reading_ok
        patchAt_nth readField_def reject_def)

section \<open>A send that passes both guards\<close>

text \<open>
  The user's message is appended and the request is sent; here the request fails, and
  the failure ends in the error cell with \<open>isLoading\<close> back to \<open>false\<close>.
\<close>

lemma sendMessage_offline:
  "researchMessages (sendMessage browser reader offline (js ''Why?'') asked) =
     [question1,
      [Role \<mapsto> JStr (js ''user''), Content \<mapsto> JStr (js ''Why?''), Timestamp \<mapsto> JDate 1000,
       Mode \<mapsto> JStr (js ''research'')],
      placeholderMessage offline False]
   \<and> failure (sendMessage browser reader offline (js ''Why?'') asked) =
       Some (HostError (js ''Failed to fetch''))
   \<and> isLoading (sendMessage browser reader offline (js ''Why?'') asked) = False
   \<and> length (effects (sendMessage browser reader offline (js ''Why?'') asked)) = 2"
proof -
  have t: "trim (js ''Why?'') = js ''Why?''"
    by (simp add: trim_js isWhiteSpace_def)
  have x: "existingSessionId (rendered reader) = JUndefined"
    by (simp add: existingSessionId_def reader_def question1_def readField_def js_eq_iff)
  have h: "auth_isAuthenticated reader" "isResearchMode reader" "truthy (articleContext reader)"
    "\<not> onError reader"
    by (simp_all add: reader_def)
  have f: "fetched offline = Inl (HostError (js ''Failed to fetch''))" "sentAt offline = 1000"
    by (simp_all add: offline_def)
  show ?thesis
    using h
    by (simp add: sendMessage_def t js_eq_Nil Let_def sendStreamingMessage_def x f
          reject_def chatFailed_def theWorld_def consoleError_def asked_def request_def
          addMessage_def startTurn_def)
qed

section \<open>A turn completed by a done event\<close>

lemma patchAt_nth_other:
  "j \<noteq> n \<Longrightarrow> patchAt (int n) u ms ! j = ms ! j"
  by (simp add: patchAt_def)

lemma patchAt_stale: "length ms \<le> n \<Longrightarrow> patchAt (int n) u ms = ms"
  by (simp add: patchAt_def)

lemma patchAt_same:
  "n < length ms \<Longrightarrow> (ms ! n) IsStreaming = Some (JBool False) \<Longrightarrow>
   patchAt (int n) [IsStreaming \<mapsto> JBool False] ms = ms"
proof -
  assume n: "n < length ms" and f: "(ms ! n) IsStreaming = Some (JBool False)"
  have "(ms ! n) ++ [IsStreaming \<mapsto> JBool False] = ms ! n"
    using f by (auto simp: map_add_def fun_eq_iff)
  then show ?thesis
    using n by (simp add: patchAt_def)
qed

lemma completed_eventBuffer [simp]:
  "completed n (t\<lparr>eventBuffer := b\<rparr>) = completed n t"
  by (simp add: completed_def)

lemma completed_consoleError [simp]:
  "completed n (consoleError l e t) = completed n t"
  by (simp add: completed_def)

lemma completed_patch:
  "completed n t \<Longrightarrow> u IsStreaming = None \<or> u IsStreaming = Some (JBool False) \<Longrightarrow>
   completed n (updateMessage (int n) u True t)"
  by (auto simp: completed_def patchAt_nth map_add_def)

lemma completed_dispatch:
  "completed n t \<Longrightarrow> completed n (dispatch (int n) ev data t)"
proof (cases "nullish data")
  case True
  assume c: "completed n t"
  then have c1: "completed n (t\<lparr>receivedDone := True\<rparr>)"
    by (simp add: completed_def)
  show ?thesis
    using True c c1 by (simp add: dispatch_def reading_nullish Let_def)
next
  case False
  assume c: "completed n t"
  then have c1: "completed n (t\<lparr>receivedDone := True\<rparr>)" and p: "promise t \<noteq> Pending"
    by (simp_all add: completed_def)
  have r: "completed n s \<Longrightarrow> completed n (resolve s)"
    "completed n s \<Longrightarrow> completed n (reject e s)"
    "completed n (setRemainingQuota q s) = completed n s" for s :: "'a turn_scheme" and e q
    by (simp_all add: completed_def setRemainingQuota_def)
  show ?thesis
    using False c c1
    by (simp add: dispatch_def reading_ok Let_def r completed_patch)
qed

lemma completed_processLine:
  "completed n t \<Longrightarrow> completed n (processLine pf (int n) line t)"
  by (simp add: processLine_def completed_dispatch Let_def split: option.splits)

lemma completed_foldl:
  "completed n t \<Longrightarrow> completed n (foldl (\<lambda>t l. processLine pf (int n) l t) t ls)"
  by (induction ls arbitrary: t) (simp_all add: completed_processLine)

lemma done_completes:
  assumes "eventBuffer t = js ''done''" and "startsWith line (js ''data: '')"
    and "JSON_parse pf (drop 6 line) = Some data" and "\<not> nullish data"
  shows "completed n (processLine pf (int n) line t)"
  using assms
  by (auto simp: processLine_data dispatch_done completed_def patchAt_nth resolve_def
        setRemainingQuota_def)

lemma completed_ending:
  assumes "completed n t"
    and "ending = [] \<or> ending = Done # rest \<or> ending = Throws e # rest"
  shows "readLoop pf (int n) d p ending t = t"
proof -
  have u: "updateMessage (int n) [IsStreaming \<mapsto> JBool False] True t = t"
  proof (cases "n < length (researchMessages t)")
    case True
    then show ?thesis
      using assms(1) by (simp add: updateMessage_def completed_def patchAt_same)
  next
    case False
    then show ?thesis
      by (simp add: updateMessage_def patchAt_stale)
  qed
  show ?thesis
    using assms u by (auto simp: completed_def)
qed

lemma length_dispatch:
  "length (researchMessages (dispatch idx ev data t)) = length (researchMessages t)"
  by (cases "nullish data") (simp_all add: dispatch_def reading_ok reading_nullish Let_def)

lemma length_processLine:
  "length (researchMessages (processLine pf idx line t)) = length (researchMessages t)"
  by (simp add: processLine_def length_dispatch Let_def split: option.splits)

lemma length_foldl:
  "length (researchMessages (foldl (\<lambda>t l. processLine pf idx l t) t ls)) =
     length (researchMessages t)"
  by (induction ls arbitrary: t) (simp_all add: length_processLine)

lemma done_in_stream:
  assumes "startsWith line (js ''data: '')" and "JSON_parse pf (drop 6 line) = Some data"
    and "\<not> nullish data"
  shows "completed n (foldl (\<lambda>t l. processLine pf (int n) l t) t
           (before @ [js ''event: done'', line] @ after))"
proof -
  define tb where "tb = foldl (\<lambda>t l. processLine pf (int n) l t) t before"
  have e: "processLine pf (int n) (js ''event: done'') tb = tb\<lparr>eventBuffer := js ''done''\<rparr>"
    by (simp add: processLine_event startsWith_js drop_js trim_js isWhiteSpace_def)
  have "completed n (processLine pf (int n) line (tb\<lparr>eventBuffer := js ''done''\<rparr>))"
    by (rule done_completes [OF _ assms]) simp
  then show ?thesis
    by (simp add: tb_def [symmetric] e completed_foldl)
qed

section \<open>The scenario of C2 at the captured index\<close>

text \<open>
  Whatever index the turn captured, the message there ends with the fields of the done
  event; called directly from a render whose messages are those of the store, that
  message is the placeholder.
\<close>

lemma status_done_at_captured_index:
  assumes "truthy (articleContext h)"
    and "fetched ev = Inr r" and "resp_ok r"
    and "resp_body r = Some (map Chunk chunks @ ending)"
    and "ending = [] \<or> ending = [Done] \<or> ending = [Throws e]"
    and "framed pf (decoder_init pf) [] chunks =
           [js ''event: status'', js ''data: {\"message\":\"thinking\"}'',
            js ''event: done'', js ''data: {\"sessionId\":\"s1\",\"canGoDeeper\":true}'']"
    and "JSON_parse pf (js ''{\"message\":\"thinking\"}'') =
           Some (JObj [(js ''message'', JStr (js ''thinking''))])"
    and "JSON_parse pf (js ''{\"sessionId\":\"s1\",\"canGoDeeper\":true}'') =
           Some (JObj [(js ''sessionId'', JStr (js ''s1'')), (js ''canGoDeeper'', JBool True)])"
    and "length (rendered h) \<le> length (researchMessages w)"
  shows "let t = sendStreamingMessage pf h ev question w;
             m = researchMessages t ! length (rendered h)
         in readField m IsStreaming = JBool False
            \<and> readField m StreamingStatus = JUndefined
            \<and> readField m SessionId = JStr (js ''s1'')
            \<and> readField m CanGoDeeper = JBool True
            \<and> readField m Confidence = JNum 85
            \<and> readField m Route = JStr (js ''research'')
            \<and> promise t = Resolved"
proof -
  define n where "n = length (rendered h)"
  define t2 where "t2 = request StreamEndpoint (requestBody h question)
                (addMessage (placeholderMessage ev (truthy (existingSessionId (rendered h)))) True
                   (startTurn w))"
  define t' where "t' = foldl (\<lambda>t l. processLine pf (int n) l t) t2
             ([js ''event: status'', js ''data: {\"message\":\"thinking\"}''] @
              [js ''event: done'', js ''data: {\"sessionId\":\"s1\",\"canGoDeeper\":true}''])"
  have len: "n < length (researchMessages t2)"
    using assms(9) by (simp add: t2_def n_def)
  have pend: "promise t2 = Pending"
    by (simp add: t2_def)
  have t': "t' = (resolve (updateMessage (int n)
                 [IsStreaming \<mapsto> JBool False, StreamingStatus \<mapsto> JUndefined,
                  Confidence \<mapsto> JNum 85, Route \<mapsto> JStr (js ''research''),
                  SessionId \<mapsto> JStr (js ''s1''), CanGoDeeper \<mapsto> JBool True,
                  DeeperSuggestion \<mapsto> JUndefined] True
                 ((updateMessage (int n) [StreamingStatus \<mapsto> JStr (js ''thinking'')] True t2)
                    \<lparr>eventBuffer := [], receivedDone := True\<rparr>)))
               \<lparr>eventBuffer := []\<rparr>"
    unfolding t'_def foldl_append status_event [OF assms(7)] done_event [OF assms(8)] by simp
  have rd: "receivedDone t'" and res: "promise t' = Resolved"
    using pend by (simp_all add: t' resolve_def)
  have msg: "researchMessages t' ! n =
           (researchMessages t2 ! n) ++
             [StreamingStatus \<mapsto> JStr (js ''thinking'')] ++
             [IsStreaming \<mapsto> JBool False, StreamingStatus \<mapsto> JUndefined,
              Confidence \<mapsto> JNum 85, Route \<mapsto> JStr (js ''research''),
              SessionId \<mapsto> JStr (js ''s1''), CanGoDeeper \<mapsto> JBool True,
              DeeperSuggestion \<mapsto> JUndefined]"
    using len by (simp add: t' patchAt_nth)
  have "sendStreamingMessage pf h ev question w =
          readLoop pf (int n) (decoder_init pf) [] (map Chunk chunks @ ending) t2"
    using sendStreamingMessage_reads [OF assms(1-4)]
    by (simp add: readStream_def t2_def n_def)
  also have "\<dots> = readLoop pf (int n) (fst (leftover pf (decoder_init pf) [] chunks))
                      (snd (leftover pf (decoder_init pf) [] chunks)) ending t'"
    by (simp only: readLoop_chunks assms(6) t'_def append.simps)
  finally have run: "sendStreamingMessage pf h ev question w =
      readLoop pf (int n) (fst (leftover pf (decoder_init pf) [] chunks))
                      (snd (leftover pf (decoder_init pf) [] chunks)) ending t'" .
  have fin: "promise (sendStreamingMessage pf h ev question w) = Resolved
      \<and> researchMessages (sendStreamingMessage pf h ev question w) ! n =
          (researchMessages t' ! n) ++ [IsStreaming \<mapsto> JBool False]"
    using assms(5) rd res len msg unfolding run
    by (auto simp: t' patchAt_nth map_add_def fun_eq_iff)
  show ?thesis
    unfolding Let_def n_def [symmetric]
    using fin by (simp add: msg readField_def map_add_def)
qed

lemma status_done_direct_call:
  "framed browser (decoder_init browser) [] statusDone =
     [js ''event: status'', js ''data: {\"message\":\"thinking\"}'',
      js ''event: done'', js ''data: {\"sessionId\":\"s1\",\"canGoDeeper\":true}'']
   \<and> length (rendered reader) \<le> length (researchMessages asked)
   \<and> (let t = sendStreamingMessage browser reader (answering (map Chunk statusDone @ [Done]))
                (js ''Why?'') asked;
            m = researchMessages t ! 1
        in readField m IsStreaming = JBool False
           \<and> readField m StreamingStatus = JUndefined
           \<and> readField m SessionId = JStr (js ''s1'')
           \<and> readField m CanGoDeeper = JBool True
           \<and> readField m Confidence = JNum 85
           \<and> readField m Route = JStr (js ''research'')
           \<and> promise t = Resolved)"
proof -
  let ?r = "\<lparr>resp_ok = True, resp_status = 200, resp_text = [],
             resp_json = Inl SyntaxError, resp_body = Some (map Chunk statusDone @ [Done])\<rparr>"
  let ?t = "sendStreamingMessage browser reader (answering (map Chunk statusDone @ [Done]))
                (js ''Why?'') asked"
  have h1: "truthy (articleContext reader)"
    by (simp add: reader_def)
  have h2: "fetched (answering (map Chunk statusDone @ [Done])) = Inr ?r"
    by (simp add: answering_def)
  have h3: "resp_ok ?r" and h4: "resp_body ?r = Some (map Chunk statusDone @ [Done])"
    by simp_all
  have h6: "JSON_parse browser (js ''{\"message\":\"thinking\"}'') =
           Some (JObj [(js ''message'', JStr (js ''thinking''))])"
    and h7: "JSON_parse browser (js ''{\"sessionId\":\"s1\",\"canGoDeeper\":true}'') =
           Some (JObj [(js ''sessionId'', JStr (js ''s1'')), (js ''canGoDeeper'', JBool True)])"
    by (simp_all add: browser_def scenario_parse_def js_eq_iff)
  have h8: "length (rendered reader) \<le> length (researchMessages asked)"
    and n: "length (rendered reader) = 1"
    by (simp_all add: reader_def asked_def)
  have h5: "[Done] = [] \<or> [Done] = [Done] \<or> [Done] = [Throws TypeError]"
    by simp
  from status_done_at_captured_index [OF h1 h2 h3 h4 h5 framed_statusDone h6 h7 h8, of "js ''Why?''"]
  show ?thesis
    using framed_statusDone h8 unfolding n Let_def by simp
qed

section \<open>More scenarios on the concrete platform\<close>

lemma parse_null: "JSON_parse browser (js ''null'') = Some JNull"
  by (simp add: browser_def scenario_parse_def js_eq_iff)

lemma framed_nullDone:
  "framed browser (decoder_init browser) [] [nullDone] = [js ''event: done'', js ''data: null'']"
proof -
  let ?whole = "''event: done\<newline>data: null\<newline>\<newline>''"
  have cc: "concat [nullDone] = bytes ?whole"
    by (simp add: nullDone_def)
  have a: "list_all (\<lambda>c. (of_char c :: nat) < 128) ?whole"
    by simp
  have s: "butlast (splitOn nl (js ?whole)) = [js ''event: done'', js ''data: null'', []]"
    by (simp add: js_def nl_def consHead_def)
  show ?thesis
    unfolding framed_browser [OF cc a] s
    by (simp add: processed_def trim_js isWhiteSpace_def js_eq_Nil) (simp add: trim_def)
qed

lemma null_done_event:
  assumes "JSON_parse pf (js ''null'') = Some JNull"
  shows "foldl (\<lambda>t l. processLine pf idx l t) t [js ''event: done'', js ''data: null''] =
         (consoleError ''Failed to parse SSE data:'' TypeError (t\<lparr>receivedDone := True\<rparr>))
           \<lparr>eventBuffer := []\<rparr>"
proof -
  have e: "processLine pf idx (js ''event: done'') t = t\<lparr>eventBuffer := js ''done''\<rparr>"
    by (simp add: processLine_event startsWith_js drop_js trim_js isWhiteSpace_def)
  show ?thesis
    by (simp add: e processLine_data startsWith_js drop_js assms dispatch_def js_eq_iff
          reading_nullish nullish_def Let_def consoleError_def)
qed

text \<open>
  The scenario of C2 through \<open>sendMessage\<close>: the user's message is at index 1, the
  placeholder at index 2, and the index the turn captured is 1.
\<close>

lemma sendMessage_statusDone:
  "researchMessages
     (sendMessage browser reader (answering (map Chunk statusDone @ [Done])) (js ''Why?'') asked) =
   [question1,
    [Role \<mapsto> JStr (js ''user''), Content \<mapsto> JStr (js ''Why?''), Timestamp \<mapsto> JDate 1000,
     Mode \<mapsto> JStr (js ''research'')] ++
      [StreamingStatus \<mapsto> JStr (js ''thinking'')] ++
      [IsStreaming \<mapsto> JBool False, StreamingStatus \<mapsto> JUndefined,
       Confidence \<mapsto> JNum 85, Route \<mapsto> JStr (js ''research''),
       SessionId \<mapsto> JStr (js ''s1''), CanGoDeeper \<mapsto> JBool True,
       DeeperSuggestion \<mapsto> JUndefined],
    placeholderMessage (answering (map Chunk statusDone @ [Done])) False]
   \<and> isLoading
        (sendMessage browser reader (answering (map Chunk statusDone @ [Done])) (js ''Why?'') asked)
       = False"
proof -
  let ?ev = "answering (map Chunk statusDone @ [Done])"
  let ?user = "[Role \<mapsto> JStr (js ''user''), Content \<mapsto> JStr (js ''Why?''),
                Timestamp \<mapsto> JDate 1000, Mode \<mapsto> JStr (js ''research'')]"
  define w3 where "w3 = (addMessage ?user True asked)\<lparr>isLoading := True, failure := None\<rparr>"
  define t2 where "t2 = request StreamEndpoint (requestBody reader (js ''Why?''))
                (addMessage (placeholderMessage ?ev (truthy (existingSessionId (rendered reader))))
                   True (startTurn w3))"
  have h: "truthy (articleContext reader)" "length (rendered reader) = 1"
    "isResearchMode reader" "auth_isAuthenticated reader"
    by (simp_all add: reader_def)
  have x: "existingSessionId (rendered reader) = JUndefined"
    by (simp add: existingSessionId_def reader_def question1_def readField_def js_eq_iff)
  have f: "fetched ?ev =
             Inr \<lparr>resp_ok = True, resp_status = 200, resp_text = [],
                  resp_json = Inl SyntaxError, resp_body = Some (map Chunk statusDone @ [Done])\<rparr>"
    and sa: "sentAt ?ev = 1000"
    by (simp_all add: answering_def)
  have t: "trim (js ''Why?'') = js ''Why?''"
    by (simp add: trim_js isWhiteSpace_def)
  have ms: "researchMessages t2 = [question1, ?user, placeholderMessage ?ev False]"
    "promise t2 = Pending"
    by (simp_all add: t2_def w3_def asked_def x addMessage_def)
  define t' where "t' = foldl (\<lambda>t l. processLine browser 1 l t) t2
             ([js ''event: status'', js ''data: {\"message\":\"thinking\"}''] @
              [js ''event: done'', js ''data: {\"sessionId\":\"s1\",\"canGoDeeper\":true}''])"
  have t': "t' = (resolve (updateMessage 1
                 [IsStreaming \<mapsto> JBool False, StreamingStatus \<mapsto> JUndefined,
                  Confidence \<mapsto> JNum 85, Route \<mapsto> JStr (js ''research''),
                  SessionId \<mapsto> JStr (js ''s1''), CanGoDeeper \<mapsto> JBool True,
                  DeeperSuggestion \<mapsto> JUndefined] True
                 ((updateMessage 1 [StreamingStatus \<mapsto> JStr (js ''thinking'')] True t2)
                    \<lparr>eventBuffer := [], receivedDone := True\<rparr>)))
               \<lparr>eventBuffer := []\<rparr>"
    unfolding t'_def foldl_append status_event [OF parse_thinking] done_event [OF parse_done]
    by simp
  have i: "int (length (rendered reader)) = 1"
    by (simp add: h(2))
  have "sendStreamingMessage browser reader ?ev (js ''Why?'') w3 =
          readStream browser (int (length (rendered reader))) (map Chunk statusDone @ [Done]) t2"
    unfolding t2_def by (rule sendStreamingMessage_reads [OF h(1) f]) simp_all
  also have "\<dots> = (if \<not> receivedDone t'
               then updateMessage 1 [IsStreaming \<mapsto> JBool False] True t' else t')"
    by (simp only: i readStream_chunks_Done framed_statusDone Let_def t'_def append.simps)
  also have "\<dots> = t'"
    by (simp add: t')
  finally have run: "sendStreamingMessage browser reader ?ev (js ''Why?'') w3 = t'" .
  have p: "promise t' = Resolved" and il: "isLoading t' = True"
    by (simp_all add: t' ms resolve_def t2_def w3_def request_def addMessage_def startTurn_def)
  have rm: "researchMessages t' =
     [question1,
      ?user ++ [StreamingStatus \<mapsto> JStr (js ''thinking'')] ++
        [IsStreaming \<mapsto> JBool False, StreamingStatus \<mapsto> JUndefined,
         Confidence \<mapsto> JNum 85, Route \<mapsto> JStr (js ''research''),
         SessionId \<mapsto> JStr (js ''s1''), CanGoDeeper \<mapsto> JBool True,
         DeeperSuggestion \<mapsto> JUndefined],
      placeholderMessage ?ev False]"
    by (simp add: t' ms patchAt_def)
  have "sendMessage browser reader ?ev (js ''Why?'') asked = (theWorld t')\<lparr>isLoading := False\<rparr>"
    using h by (simp add: sendMessage_def t js_eq_Nil Let_def sa w3_def [symmetric] run p)
  then show ?thesis
    by (simp add: theWorld_def rm)
qed

section \<open>C1: chunk-boundary invariance\<close>

text \<open>
  C1. However the bytes of a stream are cut into chunks, the loop of \<open>readStream\<close>
  hands the same lines to \<open>processLine\<close> as it does when the whole stream arrives as
  one chunk, and whatever is read afterwards (more chunks, the end of the body, a
  failure, or nothing) the turn ends in the same state: the same patches, the same
  outcome, the same diagnostics.
\<close>

theorem chunk_boundary_invariance:
  "framed pf (decoder_init pf) [] chunks = framed pf (decoder_init pf) [] [concat chunks]
   \<and> readStream pf messageIndex (map Chunk chunks @ rest) t =
       readStream pf messageIndex (Chunk (concat chunks) # rest) t"
proof -
  have F: "framed pf (decoder_init pf) [] chunks = framed pf (decoder_init pf) [] [concat chunks]"
    by (rule framed_concat) simp
  have L: "leftover pf (decoder_init pf) [] chunks = leftover pf (decoder_init pf) [] [concat chunks]"
    by (rule leftover_concat) simp
  have "readStream pf messageIndex (Chunk (concat chunks) # rest) t =
        readLoop pf messageIndex (decoder_init pf) [] (map Chunk [concat chunks] @ rest) t"
    by (simp add: readStream_def)
  also have "\<dots> = readLoop pf messageIndex (decoder_init pf) [] (map Chunk chunks @ rest) t"
    by (simp only: readLoop_chunks F L)
  finally show ?thesis using F by (simp add: readStream_def)
qed

text \<open>
  An \<open>event:\<close> line cut in two by a chunk boundary: the two chunks frame to the two
  lines of the pair, and the turn ends as it does on the uncut stream.
\<close>

theorem chunk_boundary_invariance_witness:
  "framed browser (decoder_init browser) []
     [bytes ''event: sta'', bytes ''tus\<newline>data: {\"message\":\"thinking\"}\<newline>'']
   = [js ''event: status'', js ''data: {\"message\":\"thinking\"}'']
   \<and> readStream browser 1
       [Chunk (bytes ''event: sta''),
        Chunk (bytes ''tus\<newline>data: {\"message\":\"thinking\"}\<newline>''), Done]
       inFlight
     = readStream browser 1
         [Chunk (bytes ''event: status\<newline>data: {\"message\":\"thinking\"}\<newline>''), Done]
         inFlight"
proof -
  let ?c1 = "bytes ''event: sta''"
  let ?c2 = "bytes ''tus\<newline>data: {\"message\":\"thinking\"}\<newline>''"
  let ?c = "bytes ''event: status\<newline>data: {\"message\":\"thinking\"}\<newline>''"
  have cc: "concat [?c1, ?c2] = ?c"
    by (simp add: bytes_def)
  have d: "decode utf8_step utf8_init ?c =
        (utf8_init\<lparr>bomSeen := True\<rparr>,
         js ''event: status\<newline>data: {\"message\":\"thinking\"}\<newline>'')"
    by (simp add: utf8_init_def bytes_def js_def utf8_step_def utf8_lead_def emit_def
          utf16_def Let_def)
  have s: "splitOn nl (js ''event: status\<newline>data: {\"message\":\"thinking\"}\<newline>'') =
        [js ''event: status'', js ''data: {\"message\":\"thinking\"}'', []]"
    by (simp add: js_def nl_def consHead_def)
  have p: "processed [js ''event: status'', js ''data: {\"message\":\"thinking\"}''] =
        [js ''event: status'', js ''data: {\"message\":\"thinking\"}'']"
    by (simp add: js_def processed_def trim_def isWhiteSpace_def)
  have one: "framed browser (decoder_init browser) [] [?c] =
        [js ''event: status'', js ''data: {\"message\":\"thinking\"}'']"
    by (simp add: browser_def d s p)
  from chunk_boundary_invariance [of browser "[?c1, ?c2]" 1 "[Done]" inFlight]
  show ?thesis
    unfolding cc by (simp only: one list.map append.simps)
qed

section \<open>C2: a status event, then a done event\<close>

text \<open>
  C2. The widget sends through \<open>sendMessage\<close>, which appends the user's message before
  it calls \<open>sendStreamingMessage\<close>; the closure still holds the messages of the render,
  so the index the turn captures is the index of the user's message, not of the
  placeholder appended after it. With the stream of the scenario (a status event with
  payload \<open>{"message":"thinking"}\<close>, then a done event with payload
  \<open>{"sessionId":"s1","canGoDeeper":true}\<close>) the fields of the done event end on the
  user's message at index 1; the placeholder at index 2, the message bound to the turn,
  keeps \<open>isStreaming = true\<close> and its first status and gets no \<open>sessionId\<close>,
  \<open>canGoDeeper\<close>, \<open>confidence\<close> or \<open>route\<close>.
\<close>

theorem status_done_patches_the_question:
  "(let w' = sendMessage browser reader (answering (map Chunk statusDone @ [Done]))
               (js ''Why?'') asked
    in length (researchMessages w') = 3
       \<and> readField (researchMessages w' ! 1) Role = JStr (js ''user'')
       \<and> readField (researchMessages w' ! 1) IsStreaming = JBool False
       \<and> readField (researchMessages w' ! 1) SessionId = JStr (js ''s1'')
       \<and> readField (researchMessages w' ! 1) CanGoDeeper = JBool True
       \<and> readField (researchMessages w' ! 1) Confidence = JNum 85
       \<and> readField (researchMessages w' ! 1) Route = JStr (js ''research'')
       \<and> readField (researchMessages w' ! 2) Role = JStr (js ''assistant'')
       \<and> readField (researchMessages w' ! 2) IsStreaming = JBool True
       \<and> readField (researchMessages w' ! 2) StreamingStatus = JStr (js ''Analyzing article...'')
       \<and> readField (researchMessages w' ! 2) SessionId = JUndefined
       \<and> readField (researchMessages w' ! 2) CanGoDeeper = JUndefined
       \<and> readField (researchMessages w' ! 2) Confidence = JUndefined
       \<and> readField (researchMessages w' ! 2) Route = JUndefined
       \<and> isLoading w' = False)"
  unfolding Let_def
  by (simp add: sendMessage_statusDone readField_def placeholderMessage_def map_add_def)

section \<open>C3: after a terminal event\<close>

text \<open>
  C3, as stated, fails, in four ways. Events decoded after a \<open>done\<close> event are applied
  to the message like any other: the turn is resolved and \<open>streamingStatus\<close> is cleared,
  yet a later status event sets it again. After an \<open>error\<close> event the end of the body
  still patches \<open>isStreaming\<close>. A \<open>done\<close> event with the payload \<open>null\<close> marks the
  turn as done but patches nothing and settles nothing. And in a turn sent through
  \<open>sendMessage\<close> the done event leaves the placeholder with \<open>isStreaming = true\<close>.
\<close>

theorem events_after_terminal_counterexample:
  "promise (readStream browser 1 (map Chunk statusDone) inFlight) = Resolved
   \<and> readField (researchMessages (readStream browser 1 (map Chunk statusDone) inFlight) ! 1)
        StreamingStatus = JUndefined
   \<and> readField (researchMessages
                  (readStream browser 1 (map Chunk (statusDone @ [lateStatus])) inFlight) ! 1)
        StreamingStatus = JStr (js ''thinking'')
   \<and> promise (readStream browser 1 (map Chunk [boom]) inFlight) =
        Rejected (ErrorOf (JStr (js ''boom'')))
   \<and> readField (researchMessages (readStream browser 1 (map Chunk [boom]) inFlight) ! 1)
        IsStreaming = JBool True
   \<and> readField (researchMessages (readStream browser 1 (map Chunk [boom] @ [Done]) inFlight) ! 1)
        IsStreaming = JBool False
   \<and> promise (readStream browser 1 (map Chunk [nullDone] @ [Done]) inFlight) = Pending
   \<and> receivedDone (readStream browser 1 (map Chunk [nullDone] @ [Done]) inFlight)
   \<and> readField (researchMessages (readStream browser 1 (map Chunk [nullDone] @ [Done]) inFlight) ! 1)
        IsStreaming = JBool True
   \<and> readField (researchMessages
         (sendMessage browser reader (answering (map Chunk statusDone @ [Done])) (js ''Why?'')
            asked) ! 2) Role = JStr (js ''assistant'')
   \<and> readField (researchMessages
         (sendMessage browser reader (answering (map Chunk statusDone @ [Done])) (js ''Why?'')
            asked) ! 2) IsStreaming = JBool True"
proof -
  have st: "promise inFlight = Pending" "length (researchMessages inFlight) = 2"
    "receivedDone inFlight = False"
    by (simp_all add: inFlight_def)
  have a: "readStream browser 1 (map Chunk statusDone) inFlight =
        foldl (\<lambda>t l. processLine browser 1 l t)
          (foldl (\<lambda>t l. processLine browser 1 l t) inFlight
             [js ''event: status'', js ''data: {\"message\":\"thinking\"}''])
          [js ''event: done'', js ''data: {\"sessionId\":\"s1\",\"canGoDeeper\":true}'']"
    by (simp add: readStream_chunks framed_statusDone)
  have b: "readStream browser 1 (map Chunk (statusDone @ [lateStatus])) inFlight =
        foldl (\<lambda>t l. processLine browser 1 l t)
          (readStream browser 1 (map Chunk statusDone) inFlight)
          [js ''event: status'', js ''data: {\"message\":\"thinking\"}'']"
    unfolding a by (simp only: readStream_chunks framed_late foldl_append) simp
  have c: "readStream browser 1 (map Chunk [boom]) inFlight =
        foldl (\<lambda>t l. processLine browser 1 l t) inFlight
          [js ''event: error'', js ''data: {\"message\":\"boom\"}'']"
    by (simp only: readStream_chunks framed_boom)
  have d: "readStream browser 1 (map Chunk [boom] @ [Done]) inFlight =
        updateMessage 1 [IsStreaming \<mapsto> JBool False] True
          (readStream browser 1 (map Chunk [boom]) inFlight)"
    unfolding c
    by (simp only: readStream_chunks_Done framed_boom Let_def error_event [OF parse_boom])
       (simp add: st)
  have 1: "promise (readStream browser 1 (map Chunk statusDone) inFlight) = Resolved"
    unfolding a status_event [OF parse_thinking] done_event [OF parse_done]
    by (simp add: st resolve_def)
  have 2: "readField (researchMessages (readStream browser 1 (map Chunk statusDone) inFlight) ! 1)
        StreamingStatus = JUndefined"
    unfolding a status_event [OF parse_thinking] done_event [OF parse_done]
    using patchAt_nth [of 1] by (simp add: st readField_def)
  have 3: "readField (researchMessages
                  (readStream browser 1 (map Chunk (statusDone @ [lateStatus])) inFlight) ! 1)
        StreamingStatus = JStr (js ''thinking'')"
    unfolding b status_event [OF parse_thinking]
    unfolding a status_event [OF parse_thinking] done_event [OF parse_done]
    using patchAt_nth [of 1] by (simp add: st readField_def)
  have 4: "promise (readStream browser 1 (map Chunk [boom]) inFlight) =
        Rejected (ErrorOf (JStr (js ''boom'')))"
    unfolding c error_event [OF parse_boom] by (simp add: st reject_def)
  have 5: "readField (researchMessages (readStream browser 1 (map Chunk [boom]) inFlight) ! 1)
        IsStreaming = JBool True"
    unfolding c error_event [OF parse_boom]
    by (simp add: inFlight_def placeholderMessage_def readField_def)
  have 6: "readField (researchMessages (readStream browser 1 (map Chunk [boom] @ [Done]) inFlight) ! 1)
        IsStreaming = JBool False"
    unfolding d c error_event [OF parse_boom]
    using patchAt_nth [of 1] by (simp add: st readField_def)
  have e: "readStream browser 1 (map Chunk [nullDone] @ [Done]) inFlight =
        (consoleError ''Failed to parse SSE data:'' TypeError (inFlight\<lparr>receivedDone := True\<rparr>))
           \<lparr>eventBuffer := []\<rparr>"
    by (simp only: readStream_chunks_Done framed_nullDone Let_def null_done_event [OF parse_null])
       simp
  have 7: "promise (readStream browser 1 (map Chunk [nullDone] @ [Done]) inFlight) = Pending"
    and 8: "receivedDone (readStream browser 1 (map Chunk [nullDone] @ [Done]) inFlight)"
    and 9: "readField (researchMessages (readStream browser 1 (map Chunk [nullDone] @ [Done]) inFlight) ! 1)
        IsStreaming = JBool True"
    unfolding e by (simp_all add: inFlight_def placeholderMessage_def readField_def)
  have 10: "readField (researchMessages
         (sendMessage browser reader (answering (map Chunk statusDone @ [Done])) (js ''Why?'')
            asked) ! 2) Role = JStr (js ''assistant'')"
    and 11: "readField (researchMessages
         (sendMessage browser reader (answering (map Chunk statusDone @ [Done])) (js ''Why?'')
            asked) ! 2) IsStreaming = JBool True"
    by (simp_all add: sendMessage_statusDone readField_def placeholderMessage_def)
  from 1 2 3 4 5 6 7 8 9 10 11 show ?thesis by (intro conjI)
qed

text \<open>
  C3, amended. In a research-mode turn whose stream carries a \<open>done\<close> event with a
  payload other than \<open>null\<close>, whatever is decoded before and after it: the turn ends
  marked as done and with its promise settled; the end of the body or a failed read
  after the stream changes nothing, the turn ends in the very state it has while the
  body is still open; and when the closure's messages are those of the store, so that
  the captured index is the placeholder's, the placeholder ends with
  \<open>isStreaming = false\<close>. Once any turn is marked as done, the end of the body patches
  nothing; and once the promise of a turn is settled, no later event and no later read
  changes its outcome.
\<close>

theorem terminal_events:
  "(truthy (articleContext h) \<and> fetched ev = Inr r \<and> resp_ok r
      \<and> resp_body r = Some (map Chunk vs @ ending)
      \<and> framed pf (decoder_init pf) [] vs = before @ [js ''event: done'', line] @ after
      \<and> startsWith line (js ''data: '') \<and> JSON_parse pf (drop 6 line) = Some data
      \<and> \<not> nullish data
      \<and> (ending = [] \<or> ending = Done # rest \<or> ending = Throws e # rest)
    \<longrightarrow> receivedDone (sendStreamingMessage pf h ev question w)
        \<and> promise (sendStreamingMessage pf h ev question w) \<noteq> Pending
        \<and> sendStreamingMessage pf h ev question w =
            sendStreamingMessage pf h
              (ev\<lparr>fetched := Inr (r\<lparr>resp_body := Some (map Chunk vs)\<rparr>)\<rparr>) question w
        \<and> (length (rendered h) = length (researchMessages w) \<longrightarrow>
             readField (researchMessages (sendStreamingMessage pf h ev question w)
                          ! length (researchMessages w)) IsStreaming = JBool False))
   \<and> (receivedDone t \<longrightarrow>
        readLoop pf idx d p (map Chunk cs @ Done # later) t = readLoop pf idx d p (map Chunk cs) t)
   \<and> (promise t \<noteq> Pending \<longrightarrow> promise (readLoop pf idx d p reads t) = promise t)"
proof (intro conjI impI)
  assume A: "truthy (articleContext h) \<and> fetched ev = Inr r \<and> resp_ok r
      \<and> resp_body r = Some (map Chunk vs @ ending)
      \<and> framed pf (decoder_init pf) [] vs = before @ [js ''event: done'', line] @ after
      \<and> startsWith line (js ''data: '') \<and> JSON_parse pf (drop 6 line) = Some data
      \<and> \<not> nullish data
      \<and> (ending = [] \<or> ending = Done # rest \<or> ending = Throws e # rest)"
  define n where "n = length (rendered h)"
  define t2 where "t2 = request StreamEndpoint (requestBody h question)
                (addMessage (placeholderMessage ev (truthy (existingSessionId (rendered h)))) True
                   (startTurn w))"
  define t' where "t' = foldl (\<lambda>t l. processLine pf (int n) l t) t2
                          (before @ [js ''event: done'', line] @ after)"
  let ?open = "ev\<lparr>fetched := Inr (r\<lparr>resp_body := Some (map Chunk vs)\<rparr>)\<rparr>"
  from A have dl: "startsWith line (js ''data: '')"
    and pr: "JSON_parse pf (drop 6 line) = Some data" and nn: "\<not> nullish data"
    and en: "ending = [] \<or> ending = Done # rest \<or> ending = Throws e # rest"
    by simp_all
  have c: "completed n t'"
    unfolding t'_def by (rule done_in_stream [OF dl pr nn])
  have "sendStreamingMessage pf h ev question w =
          readLoop pf (int n) (decoder_init pf) [] (map Chunk vs @ ending) t2"
    using sendStreamingMessage_reads [of h ev r "map Chunk vs @ ending" pf question w] A
    by (simp add: readStream_def t2_def n_def)
  also have "\<dots> = readLoop pf (int n) (fst (leftover pf (decoder_init pf) [] vs))
                      (snd (leftover pf (decoder_init pf) [] vs)) ending t'"
    using A by (simp only: readLoop_chunks t'_def)
  also have "\<dots> = t'"
    by (rule completed_ending [OF c en])
  finally have run: "sendStreamingMessage pf h ev question w = t'" .
  have "sendStreamingMessage pf h ?open question w =
          readLoop pf (int n) (decoder_init pf) [] (map Chunk vs @ []) t2"
    using sendStreamingMessage_reads [of h ?open "r\<lparr>resp_body := Some (map Chunk vs)\<rparr>"
        "map Chunk vs" pf question w] A
    by (simp add: readStream_def t2_def n_def placeholderMessage_def)
  also have "\<dots> = t'"
    using A by (simp only: readLoop_chunks t'_def readLoop.simps)
  finally have opn: "sendStreamingMessage pf h ?open question w = t'" .
  show "receivedDone (sendStreamingMessage pf h ev question w)"
    and "promise (sendStreamingMessage pf h ev question w) \<noteq> Pending"
    using c by (simp_all add: run completed_def)
  show "sendStreamingMessage pf h ev question w = sendStreamingMessage pf h ?open question w"
    by (simp only: run opn)
  show "readField (researchMessages (sendStreamingMessage pf h ev question w)
                          ! length (researchMessages w)) IsStreaming = JBool False"
    if cur: "length (rendered h) = length (researchMessages w)"
  proof -
    have "length (researchMessages t') = length (researchMessages t2)"
      unfolding t'_def by (rule length_foldl)
    then have "n < length (researchMessages t')"
      by (simp add: t2_def n_def cur)
    then show ?thesis
      using c by (simp add: run completed_def readField_def n_def cur)
  qed
next
  assume "receivedDone t"
  then show "readLoop pf idx d p (map Chunk cs @ Done # later) t = readLoop pf idx d p (map Chunk cs) t"
    by (rule readLoop_close_after_done)
next
  assume "promise t \<noteq> Pending"
  then show "promise (readLoop pf idx d p reads t) = promise t"
    by (rule promise_readLoop)
qed

theorem terminal_events_witness:
  "framed browser (decoder_init browser) [] statusDone =
     [js ''event: status'', js ''data: {\"message\":\"thinking\"}''] @
     [js ''event: done'', js ''data: {\"sessionId\":\"s1\",\"canGoDeeper\":true}''] @ []
   \<and> startsWith (js ''data: {\"sessionId\":\"s1\",\"canGoDeeper\":true}'') (js ''data: '')
   \<and> JSON_parse browser (drop 6 (js ''data: {\"sessionId\":\"s1\",\"canGoDeeper\":true}'')) =
       Some (JObj [(js ''sessionId'', JStr (js ''s1'')), (js ''canGoDeeper'', JBool True)])
   \<and> length (rendered reader) = length (researchMessages asked)
   \<and> receivedDone (sendStreamingMessage browser reader
         (answering (map Chunk statusDone @ [Throws (HostError (js ''network error''))]))
         (js ''Why?'') asked)
   \<and> promise (sendStreamingMessage browser reader
         (answering (map Chunk statusDone @ [Throws (HostError (js ''network error''))]))
         (js ''Why?'') asked) \<noteq> Pending
   \<and> sendStreamingMessage browser reader
         (answering (map Chunk statusDone @ [Throws (HostError (js ''network error''))]))
         (js ''Why?'') asked =
       sendStreamingMessage browser reader (answering (map Chunk statusDone)) (js ''Why?'') asked
   \<and> readField (researchMessages (sendStreamingMessage browser reader
         (answering (map Chunk statusDone @ [Throws (HostError (js ''network error''))]))
         (js ''Why?'') asked) ! 1) IsStreaming = JBool False
   \<and> receivedDone (inFlight\<lparr>receivedDone := True\<rparr>)
   \<and> readLoop browser 1 utf8_init [] (map Chunk [lateStatus] @ Done # [])
         (inFlight\<lparr>receivedDone := True\<rparr>) =
       readLoop browser 1 utf8_init [] (map Chunk [lateStatus]) (inFlight\<lparr>receivedDone := True\<rparr>)
   \<and> promise (inFlight\<lparr>promise := Resolved\<rparr>) \<noteq> Pending
   \<and> promise (readLoop browser 1 utf8_init [] [Chunk boom, Done] (inFlight\<lparr>promise := Resolved\<rparr>)) =
       Resolved"
proof -
  let ?L = "js ''data: {\"sessionId\":\"s1\",\"canGoDeeper\":true}''"
  let ?O = "JObj [(js ''sessionId'', JStr (js ''s1'')), (js ''canGoDeeper'', JBool True)]"
  let ?e = "HostError (js ''network error'')"
  let ?r = "\<lparr>resp_ok = True, resp_status = 200, resp_text = [], resp_json = Inl SyntaxError,
             resp_body = Some (map Chunk statusDone @ [Throws ?e])\<rparr>"
  have s: "startsWith ?L (js ''data: '')"
    by (simp add: startsWith_js)
  have p: "JSON_parse browser (drop 6 ?L) = Some ?O"
    using parse_done by (simp add: drop_js)
  have fr: "framed browser (decoder_init browser) [] statusDone =
     [js ''event: status'', js ''data: {\"message\":\"thinking\"}''] @ [js ''event: done'', ?L] @ []"
    by (simp add: framed_statusDone)
  have h: "truthy (articleContext reader)" "length (rendered reader) = length (researchMessages asked)"
    "length (researchMessages asked) = 1"
    by (simp_all add: reader_def asked_def)
  have f: "fetched (answering (map Chunk statusDone @ [Throws ?e])) = Inr ?r"
    "(answering (map Chunk statusDone @ [Throws ?e]))
       \<lparr>fetched := Inr (?r\<lparr>resp_body := Some (map Chunk statusDone)\<rparr>)\<rparr> =
     answering (map Chunk statusDone)"
    by (simp_all add: answering_def)
  from terminal_events [where h = reader and ev = "answering (map Chunk statusDone @ [Throws ?e])"
      and r = ?r and vs = statusDone and ending = "[Throws ?e]" and pf = browser
      and before = "[js ''event: status'', js ''data: {\"message\":\"thinking\"}'']"
      and line = ?L and after = "[]" and data = ?O and rest = "[]" and e = ?e
      and question = "js ''Why?''" and w = asked
      and t = "inFlight\<lparr>receivedDone := True\<rparr>" and idx = 1 and d = utf8_init and p = "[]"
      and cs = "[lateStatus]" and later = "[]" and reads = "[]"]
    terminal_events [where h = reader and ev = "answering (map Chunk statusDone @ [Throws ?e])"
      and r = ?r and vs = statusDone and ending = "[Throws ?e]" and pf = browser
      and before = "[js ''event: status'', js ''data: {\"message\":\"thinking\"}'']"
      and line = ?L and after = "[]" and data = ?O and rest = "[]" and e = ?e
      and question = "js ''Why?''" and w = asked
      and t = "inFlight\<lparr>promise := Resolved\<rparr>" and idx = 1 and d = utf8_init and p = "[]"
      and cs = "[]" and later = "[]" and reads = "[Chunk boom, Done]"]
  show ?thesis
    using s p fr h f by (simp add: nullish_def)
qed

section \<open>C4: the body ends without a terminal event\<close>

text \<open>
  C4. The body of the response ends at once, before any \<open>done\<close> or \<open>error\<close> event.
  The message at the captured index is patched to \<open>isStreaming = false\<close>, but the
  promise of the turn is never settled: \<open>sendMessage\<close> stays suspended on it and
  \<open>isLoading\<close> stays \<open>true\<close>.
\<close>

theorem silent_close_leaves_turn_pending:
  "promise (sendStreamingMessage browser reader (answering [Done]) (js ''Why?'') asked) = Pending
   \<and> readField (researchMessages
                  (sendStreamingMessage browser reader (answering [Done]) (js ''Why?'') asked) ! 1)
        IsStreaming = JBool False
   \<and> isLoading (sendMessage browser reader (answering [Done]) (js ''Why?'') asked) = True"
proof -
  have h: "truthy (articleContext reader)" "length (rendered reader) = 1"
    "isResearchMode reader" "auth_isAuthenticated reader"
    by (simp_all add: reader_def)
  have f: "fetched (answering [Done]) =
             Inr \<lparr>resp_ok = True, resp_status = 200, resp_text = [],
                  resp_json = Inl SyntaxError, resp_body = Some [Done]\<rparr>"
    by (simp add: answering_def)
  have run: "sendStreamingMessage browser reader (answering [Done]) question w =
        updateMessage 1 [IsStreaming \<mapsto> JBool False] True
          (request StreamEndpoint (requestBody reader question)
             (addMessage (placeholderMessage (answering [Done])
                 (truthy (existingSessionId (rendered reader)))) True (startTurn w)))"
    for question w
    using sendStreamingMessage_reads [OF h(1) f, of "[Done]" browser question w]
    by (simp add: readStream_def h(2))
  have t: "trim (js ''Why?'') \<noteq> []"
    by (simp add: trim_js isWhiteSpace_def js_eq_Nil)
  have 1: "promise (sendStreamingMessage browser reader (answering [Done]) (js ''Why?'') asked) = Pending"
    by (simp add: run)
  have 2: "readField (researchMessages
                  (sendStreamingMessage browser reader (answering [Done]) (js ''Why?'') asked) ! 1)
        IsStreaming = JBool False"
    using patchAt_nth [of 1] by (simp add: run asked_def readField_def)
  have 3: "isLoading (sendMessage browser reader (answering [Done]) (js ''Why?'') asked) = True"
    using t h by (simp add: sendMessage_def Let_def run theWorld_def request_def addMessage_def startTurn_def)
  from 1 2 3 show ?thesis by (intro conjI)
qed

section \<open>C5: a payload that does not parse\<close>

text \<open>
  C5. A \<open>data: \<close> line whose payload \<open>JSON.parse\<close> rejects changes nothing but the
  console, where one diagnostic is written, and the pending event type, which is reset
  to the empty string: no message is patched and the promise of the turn is left as it
  was. The loop then goes on with the lines that follow.
\<close>

theorem malformed_payload_dropped:
  assumes "startsWith (trim raw) (js ''data: '')"
    and "JSON_parse pf (drop 6 (trim raw)) = None"
  shows "processLine pf messageIndex (trim raw) t =
           t\<lparr>effects := effects t @ [ConsoleError (js ''Failed to parse SSE data:'') SyntaxError],
             eventBuffer := []\<rparr>
         \<and> forLines pf messageIndex (raw # later) t =
             forLines pf messageIndex later
               (t\<lparr>effects := effects t @ [ConsoleError (js ''Failed to parse SSE data:'') SyntaxError],
                  eventBuffer := []\<rparr>)"
  using assms startsWith_nonempty [of "trim raw"]
  by (simp add: processLine_data consoleError_def)

theorem malformed_payload_dropped_witness:
  "startsWith (trim (js ''data: {oops '')) (js ''data: '')
   \<and> JSON_parse browser (drop 6 (trim (js ''data: {oops ''))) = None
   \<and> processLine browser 1 (trim (js ''data: {oops '')) (inFlight\<lparr>eventBuffer := js ''status''\<rparr>) =
       inFlight\<lparr>effects := [ConsoleError (js ''Failed to parse SSE data:'') SyntaxError]\<rparr>
   \<and> forLines browser 1 [js ''data: {oops '', js ''event: done''] (inFlight\<lparr>eventBuffer := js ''status''\<rparr>) =
       inFlight\<lparr>effects := [ConsoleError (js ''Failed to parse SSE data:'') SyntaxError],
                eventBuffer := js ''done''\<rparr>"
proof -
  have tr: "trim (js ''data: {oops '') = js ''data: {oops''"
    by (simp add: trim_def js_def isWhiteSpace_def)
  have sw: "startsWith (js ''data: {oops'') (js ''data: '')"
    by (simp add: startsWith_js)
  have pr: "JSON_parse browser (drop 6 (js ''data: {oops'')) = None"
    by (simp add: browser_def scenario_parse_def drop_js js_eq_iff)
  have td: "trim (js ''done'') = js ''done''"
    by (simp add: trim_def js_def isWhiteSpace_def)
  have ev: "forLines browser 1 [js ''event: done'']
              (inFlight\<lparr>effects := [ConsoleError (js ''Failed to parse SSE data:'') SyntaxError]\<rparr>) =
            inFlight\<lparr>effects := [ConsoleError (js ''Failed to parse SSE data:'') SyntaxError],
                eventBuffer := js ''done''\<rparr>"
    by (simp add: processLine_event startsWith_js drop_js trim_js isWhiteSpace_def js_eq_Nil)
  from malformed_payload_dropped [of "js ''data: {oops ''" browser 1
      "inFlight\<lparr>eventBuffer := js ''status''\<rparr>" "[js ''event: done'']"]
  show ?thesis
    unfolding tr using sw pr ev by (simp add: inFlight_def)
qed

section \<open>C6: patching a stale index\<close>

text \<open>
  C6. \<open>updateMessage\<close> with an index at or beyond the length of the track it targets
  returns the store as it was. The operation has no failing branch: it is a total
  function of the store.
\<close>

theorem updateMessage_stale_index:
  "int (length (if isResearch then researchMessages w else messages w)) \<le> index \<Longrightarrow>
   updateMessage index updates isResearch w = w"
  by (cases isResearch) (auto simp: updateMessage_def patchAt_def)

theorem updateMessage_stale_index_witness:
  "int (length (if True then researchMessages asked else messages asked)) \<le> 1
   \<and> updateMessage 1 [IsStreaming \<mapsto> JBool False] True asked = asked"
  using updateMessage_stale_index [of True asked 1 "[IsStreaming \<mapsto> JBool False]"]
  by (simp add: asked_def)

section \<open>C7: the guard of the deeper analysis\<close>

text \<open>
  C7. When the message at the index carries no session id (or there is no message
  there), or the caller has no token, \<open>requestDeeperAnalysis\<close> returns normally and
  leaves the world as it was: no message is patched and no request is sent.
\<close>

theorem requestDeeperAnalysis_noop:
  "\<not> truthy (sessionIdAt (rendered h) messageIndex) \<or> \<not> truthy (auth_token h) \<Longrightarrow>
   theWorld (requestDeeperAnalysis pf h ev messageIndex w) = w
   \<and> promise (requestDeeperAnalysis pf h ev messageIndex w) = Resolved"
  by (auto simp: requestDeeperAnalysis_def theWorld_def startSession_def)

theorem requestDeeperAnalysis_noop_witness:
  "\<not> truthy (sessionIdAt (rendered reader) 0)
   \<and> theWorld (requestDeeperAnalysis browser reader offline 0 asked) = asked
   \<and> promise (requestDeeperAnalysis browser reader offline 0 asked) = Resolved
   \<and> \<not> truthy (auth_token (reader\<lparr>auth_token := JUndefined\<rparr>))
   \<and> theWorld (requestDeeperAnalysis browser (reader\<lparr>auth_token := JUndefined\<rparr>) offline 0 asked) = asked"
proof -
  have a: "\<not> truthy (sessionIdAt (rendered reader) 0)"
    by (simp add: sessionIdAt_def reader_def question1_def readField_def)
  have b: "\<not> truthy (auth_token (reader\<lparr>auth_token := JUndefined\<rparr>))"
    by simp
  from requestDeeperAnalysis_noop [of reader 0 browser offline asked]
    requestDeeperAnalysis_noop [of "reader\<lparr>auth_token := JUndefined\<rparr>" 0 browser offline asked]
  show ?thesis using a b by simp
qed

section \<open>C8: failures of the deeper analysis\<close>

text \<open>
  C8. The connection fails while the body of the deeper analysis is being read. The
  rejection of the read is handled by nobody: the message stays with
  \<open>isLoadingDeeper = true\<close> and \<open>canGoDeeper = false\<close>, and the promise of the call is
  never settled. The same failure in a research-mode turn rejects the turn.
\<close>

theorem deeper_read_failure_unhandled:
  "promise (requestDeeperAnalysis browser follower
              (answering [Throws (HostError (js ''network error''))]) 1 discussed) = Pending
   \<and> readField (researchMessages (requestDeeperAnalysis browser follower
              (answering [Throws (HostError (js ''network error''))]) 1 discussed) ! 1)
        IsLoadingDeeper = JBool True
   \<and> readField (researchMessages (requestDeeperAnalysis browser follower
              (answering [Throws (HostError (js ''network error''))]) 1 discussed) ! 1)
        CanGoDeeper = JBool False
   \<and> effects (requestDeeperAnalysis browser follower
              (answering [Throws (HostError (js ''network error''))]) 1 discussed) =
        [Fetch DeeperEndpoint (JObj [(js ''sessionId'', JStr (js ''s1''))]),
         UnhandledRejection (HostError (js ''network error''))]
   \<and> promise (sendStreamingMessage browser reader
              (answering [Throws (HostError (js ''network error''))]) (js ''Why?'') asked) =
        Rejected (HostError (js ''network error''))"
proof -
  let ?e = "HostError (js ''network error'')"
  have sid: "sessionIdAt (rendered follower) 1 = JStr (js ''s1'')"
    by (simp add: follower_def sessionIdAt_def answered_def readField_def)
  have tok: "truthy (auth_token follower)"
    by (simp add: follower_def reader_def js_eq_Nil)
  have run: "requestDeeperAnalysis browser follower (answering [Throws ?e]) 1 discussed =
       (request DeeperEndpoint (JObj [(js ''sessionId'', JStr (js ''s1''))])
          (updateMessage 1 [IsLoadingDeeper \<mapsto> JBool True, CanGoDeeper \<mapsto> JBool False] True
             (startSession discussed)))
       \<lparr>effects := [Fetch DeeperEndpoint (JObj [(js ''sessionId'', JStr (js ''s1''))]),
                    UnhandledRejection ?e]\<rparr>"
    using tok
    by (simp add: requestDeeperAnalysis_def sid js_eq_Nil answering_def readStreamDeeper_def
          Let_def request_def startSession_def discussed_def updateMessage_def)
  have h: "truthy (articleContext reader)" "length (rendered reader) = 1"
    by (simp_all add: reader_def)
  have f: "fetched (answering [Throws ?e]) =
             Inr \<lparr>resp_ok = True, resp_status = 200, resp_text = [],
                  resp_json = Inl SyntaxError, resp_body = Some [Throws ?e]\<rparr>"
    by (simp add: answering_def)
  have 5: "promise (sendStreamingMessage browser reader (answering [Throws ?e]) (js ''Why?'') asked) =
        Rejected ?e"
    using sendStreamingMessage_reads [OF h(1) f, of "[Throws ?e]" browser "js ''Why?''" asked]
    by (simp add: readStream_def h(2) reject_def)
  have 1: "promise (requestDeeperAnalysis browser follower (answering [Throws ?e]) 1 discussed) = Pending"
    unfolding run by (simp add: startSession_def)
  have 2: "readField (researchMessages (requestDeeperAnalysis browser follower
              (answering [Throws ?e]) 1 discussed) ! 1) IsLoadingDeeper = JBool True"
    and 3: "readField (researchMessages (requestDeeperAnalysis browser follower
              (answering [Throws ?e]) 1 discussed) ! 1) CanGoDeeper = JBool False"
    unfolding run using patchAt_nth [of 1]
    by (simp_all add: startSession_def discussed_def readField_def)
  have 4: "effects (requestDeeperAnalysis browser follower (answering [Throws ?e]) 1 discussed) =
        [Fetch DeeperEndpoint (JObj [(js ''sessionId'', JStr (js ''s1''))]),
         UnhandledRejection ?e]"
    unfolding run by simp
  from 1 2 3 4 5 show ?thesis by (intro conjI)
qed

text \<open>
  The call passes the guard: the message carries a session id and the caller a token.
\<close>

theorem deeper_read_failure_unhandled_witness:
  "truthy (sessionIdAt (rendered follower) 1)
   \<and> truthy (auth_token follower)
   \<and> promise (requestDeeperAnalysis browser follower
              (answering [Throws (HostError (js ''network error''))]) 1 discussed) \<noteq>
        Rejected (HostError (js ''network error''))"
proof -
  have "truthy (sessionIdAt (rendered follower) 1)"
    by (simp add: follower_def sessionIdAt_def answered_def readField_def js_eq_Nil)
  moreover have "truthy (auth_token follower)"
    by (simp add: follower_def reader_def js_eq_Nil)
  ultimately show ?thesis
    using deeper_read_failure_unhandled by simp
qed

section \<open>C9: an error event\<close>

text \<open>
  C9. An \<open>error\<close> event that reaches a turn still in flight rejects it with the
  payload's \<open>message\<close>, or with \<open>Stream error\<close> when the payload has none, and patches
  no message: \<open>isStreaming\<close> stays as it was last set.
\<close>

theorem error_event_rejects:
  assumes "eventBuffer t = js ''error''"
    and "startsWith line (js ''data: '')"
    and "JSON_parse pf (drop 6 line) = Some data"
    and "\<not> nullish data"
    and "promise t = Pending"
  shows "promise (processLine pf messageIndex line t) =
           Rejected (ErrorOf (if truthy (dot data ''message'') then dot data ''message''
                              else JStr (js ''Stream error'')))
         \<and> researchMessages (processLine pf messageIndex line t) = researchMessages t
         \<and> messages (processLine pf messageIndex line t) = messages t"
  using assms by (simp add: processLine_data dispatch_error reject_def orElse_def)

theorem error_event_rejects_witness:
  "eventBuffer (inFlight\<lparr>eventBuffer := js ''error''\<rparr>) = js ''error''
   \<and> startsWith (js ''data: {\"message\":\"boom\"}'') (js ''data: '')
   \<and> JSON_parse browser (drop 6 (js ''data: {\"message\":\"boom\"}'')) =
       Some (JObj [(js ''message'', JStr (js ''boom''))])
   \<and> \<not> nullish (JObj [(js ''message'', JStr (js ''boom''))])
   \<and> promise (inFlight\<lparr>eventBuffer := js ''error''\<rparr>) = Pending
   \<and> promise (processLine browser 1 (js ''data: {\"message\":\"boom\"}'')
               (inFlight\<lparr>eventBuffer := js ''error''\<rparr>)) = Rejected (ErrorOf (JStr (js ''boom'')))
   \<and> readField (researchMessages (processLine browser 1 (js ''data: {\"message\":\"boom\"}'')
               (inFlight\<lparr>eventBuffer := js ''error''\<rparr>)) ! 1) IsStreaming = JBool True
   \<and> promise (processLine browser 1 (js ''data: {}'') (inFlight\<lparr>eventBuffer := js ''error''\<rparr>)) =
       Rejected (ErrorOf (JStr (js ''Stream error'')))"
proof -
  let ?t = "inFlight\<lparr>eventBuffer := js ''error''\<rparr>"
  have s1: "startsWith (js ''data: {\"message\":\"boom\"}'') (js ''data: '')"
    and s2: "startsWith (js ''data: {}'') (js ''data: '')"
    by (simp_all add: startsWith_js)
  have p1: "JSON_parse browser (drop 6 (js ''data: {\"message\":\"boom\"}'')) =
       Some (JObj [(js ''message'', JStr (js ''boom''))])"
    and p2: "JSON_parse browser (drop 6 (js ''data: {}'')) = Some (JObj [])"
    by (simp_all add: browser_def scenario_parse_def drop_js js_eq_iff)
  have st: "eventBuffer ?t = js ''error''" "promise ?t = Pending"
    "readField (researchMessages ?t ! 1) IsStreaming = JBool True"
    by (simp_all add: inFlight_def placeholderMessage_def readField_def)
  have m1: "dot (JObj [(js ''message'', JStr (js ''boom''))]) ''message'' = JStr (js ''boom'')"
    and m2: "dot (JObj []) ''message'' = JUndefined"
    by (simp_all add: dot_def)
  from error_event_rejects [OF st(1) s1 p1 _ st(2), of 1]
    error_event_rejects [OF st(1) s2 p2 _ st(2), of 1]
  show ?thesis
    using s1 p1 st by (simp add: nullish_def m1 m2 js_eq_Nil)
qed

section \<open>C10: the guards of sendMessage\<close>

text \<open>
  C10. A blank message, or any message from a caller who is not authenticated, leaves
  both tracks as they were and sends no request; the only effect, for a non-blank
  message of an unauthenticated caller, is the call of \<open>onAuthRequired\<close> when the host
  defined it.
\<close>

theorem sendMessage_guards:
  "trim content = [] \<or> \<not> auth_isAuthenticated h \<Longrightarrow>
   sendMessage pf h ev content w =
     (if trim content \<noteq> [] \<and> onAuthRequired h
      then w\<lparr>effects := effects w @ [AuthRequired]\<rparr> else w)"
  by (auto simp: sendMessage_def)

theorem sendMessage_guards_witness:
  "trim (js ''   '') = []
   \<and> sendMessage browser reader offline (js ''   '') asked = asked
   \<and> \<not> auth_isAuthenticated (reader\<lparr>auth_isAuthenticated := False\<rparr>)
   \<and> sendMessage browser (reader\<lparr>auth_isAuthenticated := False\<rparr>) offline (js ''Why?'') asked =
       asked\<lparr>effects := [AuthRequired]\<rparr>"
proof -
  have a: "trim (js ''   '') = []"
    by (simp add: trim_def js_def isWhiteSpace_def)
  have b: "trim (js ''Why?'') \<noteq> []"
    by (simp add: trim_js isWhiteSpace_def js_eq_Nil)
  from sendMessage_guards [of "js ''   ''" reader browser offline asked]
    sendMessage_guards [of "js ''Why?''" "reader\<lparr>auth_isAuthenticated := False\<rparr>" browser offline asked]
  show ?thesis using a b by (simp add: reader_def asked_def)
qed

end
